theory Spec2Isabelle
  imports Complex_Main "HOL-Library.Sublist"
begin

text \<open>
  A model of the conversational agent's core: the fallback composition of language
  model providers, the tool registry's \<open>ExecuteTool\<close>, and the tool-calling loop
  \<open>handleToolCallsWithDepthLimitStreaming\<close> with its caller \<open>sendMessageInternal\<close>.
  Everything that touches the outside (providers, tools, memory, the clock, output)
  acts on an explicit world \<open>'w\<close> that every call takes and returns; errors are
  values of a sum type, \<open>Inl\<close> holding the error.
\<close>

section \<open>Strings and formatting\<close>

text \<open>
  Go strings are byte sequences; they are modelled as \<^typ>\<open>string\<close>, one \<^typ>\<open>char\<close>
  per byte, so \<open>length\<close> is Go's \<open>len\<close>.  The helpers below are the functions of
  Go's \<open>strings\<close> and \<open>fmt\<close> packages that the modelled code calls.
\<close>

definition digit_char :: "nat \<Rightarrow> char" where
  "digit_char d = char_of (48 + d)"

fun nat_dec :: "nat \<Rightarrow> string" where
  "nat_dec n = (if n < 10 then [digit_char n] else nat_dec (n div 10) @ [digit_char (n mod 10)])"

declare nat_dec.simps [simp del]

text \<open>The verb \<open>%d\<close> of \<open>fmt.Sprintf\<close> applied to an \<open>int\<close>.\<close>

definition fmt_d :: "int \<Rightarrow> string" where
  "fmt_d i = (if i < 0 then CHR ''-'' # nat_dec (nat (- i)) else nat_dec (nat i))"

text \<open>\<open>strings.HasSuffix\<close>, \<open>strings.HasPrefix\<close> and \<open>strings.Contains\<close>.\<close>

definition HasSuffix :: "string \<Rightarrow> string \<Rightarrow> bool" where
  "HasSuffix s suf \<longleftrightarrow> length s \<ge> length suf \<and> drop (length s - length suf) s = suf"

definition HasPrefix :: "string \<Rightarrow> string \<Rightarrow> bool" where
  "HasPrefix s pre \<longleftrightarrow> length s \<ge> length pre \<and> take (length pre) s = pre"

fun Contains :: "string \<Rightarrow> string \<Rightarrow> bool" where
  "Contains [] sub = (sub = [])"
| "Contains (c # cs) sub = (HasPrefix (c # cs) sub \<or> Contains cs sub)"

definition newline :: string where
  "newline = [CHR 0x0A]"

section \<open>Completion data (package llm)\<close>

record FunctionCall =
  fc_Name :: string
  fc_Arguments :: string

record ToolCall =
  tc_ID :: string
  tc_Type :: string
  tc_Function :: FunctionCall

record Message =
  Role :: string
  Content :: string
  ToolCalls :: "ToolCall list"
  ToolCallID :: string

text \<open>
  A value of Go's \<open>interface{}\<close>, as far as the code inspects it: \<open>nil\<close>, a scalar, a
  slice or a \<open>map[string]interface{}\<close> (an association list; a \<open>nil\<close> map is \<open>[]\<close>).
\<close>

datatype iface =
  INil
| IBool bool
| IInt int
| IStr string
| ISlice "iface list"
| IMap "(string \<times> iface) list"

type_synonym params = "(string \<times> iface) list"

record FunctionDefinition =
  fd_Name :: string
  fd_Description :: string
  fd_Parameters :: params

record FunctionTool =
  ft_Type :: string
  ft_Function :: FunctionDefinition

record CompletionRequest =
  req_Messages :: "Message list"
  req_Model :: string
  req_MaxTokens :: int
  req_Temperature :: real
  req_Stream :: bool
  req_Tools :: "FunctionTool list"
  req_ToolChoice :: string

record TokenUsage =
  PromptTokens :: int
  CompletionTokens :: int
  TotalTokens :: int

record CompletionResponse =
  resp_Content :: string
  resp_Model :: string
  resp_Usage :: TokenUsage
  resp_ResponseTime :: int
  resp_ToolCalls :: "ToolCall list"

subsection \<open>Errors\<close>

text \<open>
  A Go \<open>error\<close> value is either a \<open>*ProviderError\<close> (provider, type, message, wrapped
  error) or some other error, of which only the text matters here.
\<close>

datatype error =
  ProviderError string string string "error option"
| errorString string

fun Error :: "error \<Rightarrow> string" where
  "Error (errorString s) = s"
| "Error (ProviderError p t m None) = p @ '' '' @ t @ '': '' @ m"
| "Error (ProviderError p t m (Some e)) = p @ '' '' @ t @ '': '' @ m @ '' ('' @ Error e @ '')''"

definition ErrorTypeAuth :: string where
  "ErrorTypeAuth = ''auth_error''"

definition ErrorTypeRateLimit :: string where
  "ErrorTypeRateLimit = ''rate_limit''"

definition ErrorTypeQuotaExceed :: string where
  "ErrorTypeQuotaExceed = ''quota_exceeded''"

definition ErrorTypeNetwork :: string where
  "ErrorTypeNetwork = ''network_error''"

definition ErrorTypeInvalidReq :: string where
  "ErrorTypeInvalidReq = ''invalid_request''"

definition ErrorTypeServerError :: string where
  "ErrorTypeServerError = ''server_error''"


subsection \<open>Providers\<close>

text \<open>
  A provider talks to a remote service: its methods read and change a world \<open>'w\<close>
  that the model threads through every call.  Deadlines of the \<open>context\<close> are not
  modelled; a provider that times out returns an error.
\<close>

record 'w Provider =
  p_GetName :: string
  p_IsAvailable :: "'w \<Rightarrow> bool \<times> 'w"
  p_Complete :: "CompletionRequest \<Rightarrow> 'w \<Rightarrow> (error + CompletionResponse) \<times> 'w"

section \<open>FallbackProvider\<close>

record 'w FallbackProvider =
  providers :: "'w Provider list"
  timeout :: int

text \<open>\<open>strings.Join\<close> with a single blank, as \<open>%v\<close> prints a slice of strings.\<close>

fun join_blank :: "string list \<Rightarrow> string" where
  "join_blank [] = []"
| "join_blank [x] = x"
| "join_blank (x # y # ys) = x @ '' '' @ join_blank (y # ys)"

definition FallbackProvider_GetName :: "'w FallbackProvider \<Rightarrow> string" where
  "FallbackProvider_GetName f =
     (if length (providers f) = 0 then ''fallback-empty''
      else ''fallback['' @ (''['' @ join_blank (map p_GetName (providers f)) @ '']'') @ '']'')"

text \<open>
  The switch on \<open>providerErr.Type\<close>: true exactly for a \<open>*ProviderError\<close> whose type is
  auth, quota or rate limit.
\<close>

fun is_fallback_error :: "error \<Rightarrow> bool" where
  "is_fallback_error (ProviderError p t m e) =
     (t = ErrorTypeAuth \<or> t = ErrorTypeQuotaExceed \<or> t = ErrorTypeRateLimit)"
| "is_fallback_error (errorString s) = False"

text \<open>
  The \<open>for i, provider := range f.providers\<close> loop of \<open>Complete\<close>, as a recursion on the
  providers still to visit; \<open>i < len(f.providers)-1\<close> holds exactly when that rest is
  not empty.  \<open>fname\<close> is \<open>f.GetName()\<close>, \<open>lastError\<close> the variable of that name
  (\<open>None\<close> for \<open>nil\<close>).
\<close>

fun Complete_loop ::
  "string \<Rightarrow> 'w Provider list \<Rightarrow> CompletionRequest \<Rightarrow> error option \<Rightarrow> 'w
     \<Rightarrow> (error + CompletionResponse) \<times> 'w" where
  "Complete_loop fname [] req lastError w =
     (case lastError of
        Some e \<Rightarrow> (Inl (ProviderError fname ErrorTypeServerError ''all providers failed'' (Some e)), w)
      | None \<Rightarrow> (Inl (ProviderError fname ErrorTypeServerError ''no providers configured'' None), w))"
| "Complete_loop fname (provider # rest) req lastError w =
     (case p_IsAvailable provider w of
        (False, w1) \<Rightarrow>
          Complete_loop fname rest req
            (Some (ProviderError (p_GetName provider) ErrorTypeNetwork ''provider not available'' None)) w1
      | (True, w1) \<Rightarrow>
          (case p_Complete provider req w1 of
             (Inr resp, w2) \<Rightarrow>
               (Inr (resp\<lparr>resp_Model := resp_Model resp @ '' ('' @ p_GetName provider @ '')''\<rparr>), w2)
           | (Inl err, w2) \<Rightarrow>
               if is_fallback_error err then Complete_loop fname rest req (Some err) w2
               else if rest \<noteq> [] then Complete_loop fname rest req (Some err) w2
               else (Inl err, w2)))"

definition FallbackProvider_Complete ::
  "'w FallbackProvider \<Rightarrow> CompletionRequest \<Rightarrow> 'w \<Rightarrow> (error + CompletionResponse) \<times> 'w" where
  "FallbackProvider_Complete f req w =
     Complete_loop (FallbackProvider_GetName f) (providers f) req None w"


section \<open>Tools and the tool registry (package tools)\<close>

record ToolResult =
  res_Success :: bool
  res_Data :: iface
  res_Error :: string
  res_Message :: string
  res_Metadata :: params
  res_ExecutionID :: string
  res_Timestamp :: int
  res_Duration :: int

record ToolExecution =
  ex_ToolName :: string
  ex_Parameters :: params
  ex_RequestID :: string
  ex_UserID :: string
  ex_SessionID :: string
  ex_Confirmed :: bool
  ex_Timestamp :: int

record ToolExecutionHistory =
  h_Execution :: ToolExecution
  h_Result :: ToolResult
  h_Success :: bool

text \<open>
  The methods of the \<open>Tool\<close> interface that \<open>ExecuteTool\<close> calls.  \<open>t_ValidateParameters\<close>
  is \<open>None\<close> for a tool without a \<open>ValidateParameters\<close> method; the method returns
  \<open>None\<close> for a \<open>nil\<close> error.
\<close>

record 'w Tool =
  t_GetName :: string
  t_Execute :: "params \<Rightarrow> 'w \<Rightarrow> (error + ToolResult) \<times> 'w"
  t_IsAvailable :: "'w \<Rightarrow> bool \<times> 'w"
  t_RequiresConfirmation :: bool
  t_GetEstimatedCost :: int
  t_ValidateParameters :: "(params \<Rightarrow> error option) option"

text \<open>
  What the code takes from outside this repository's sources: the clock
  (\<open>time.Now\<close>), \<open>generateExecutionID\<close> (called in \<open>registry.go\<close>; its declaration
  is not among the sources modelled), \<open>json.Unmarshal\<close> into a
  \<open>map[string]interface{}\<close>, \<open>strings.ToLower\<close> and standard output.  They are
  parameters of the model.
\<close>

record 'w Runtime =
  rt_Now :: "'w \<Rightarrow> int"
  rt_generateExecutionID :: "'w \<Rightarrow> string"
  rt_Unmarshal :: "string \<Rightarrow> error + params"
  rt_ToLower :: "string \<Rightarrow> string"
  rt_Printf :: "string \<Rightarrow> 'w \<Rightarrow> 'w"

text \<open>
  The registry: the tools by name, the execution history and its bound.  The mutex
  that guards them has no counterpart, the model being sequential.
\<close>

record 'w ToolRegistry =
  tools :: "string \<rightharpoonup> 'w Tool"
  history :: "ToolExecutionHistory list"
  maxHistory :: nat

definition apos :: string where
  "apos = [CHR 0x27]"

definition dquote :: string where
  "dquote = [CHR 0x22]"

definition recordExecution ::
  "'w ToolRegistry \<Rightarrow> ToolExecution \<Rightarrow> ToolResult \<Rightarrow> 'w ToolRegistry" where
  "recordExecution tr execution result =
     (let h = history tr @ [\<lparr>h_Execution = execution, h_Result = result, h_Success = res_Success result\<rparr>]
      in if length h > maxHistory tr
         then tr\<lparr>history := drop (length h - maxHistory tr) h\<rparr>
         else tr\<lparr>history := h\<rparr>)"

definition ExecuteTool ::
  "'w Runtime \<Rightarrow> 'w ToolRegistry \<Rightarrow> ToolExecution \<Rightarrow> 'w
     \<Rightarrow> (error + ToolResult) \<times> 'w ToolRegistry \<times> 'w" where
  "ExecuteTool rt tr execution w =
     (case tools tr (ex_ToolName execution) of
        None \<Rightarrow>
          (Inl (errorString (''tool '' @ apos @ ex_ToolName execution @ apos @ '' not found'')), tr, w)
      | Some tool \<Rightarrow>
          (case t_IsAvailable tool w of
             (False, w1) \<Rightarrow>
               (Inr \<lparr>res_Success = False, res_Data = INil,
                     res_Error = ''tool is not available'',
                     res_Message = ''Tool '' @ apos @ ex_ToolName execution @ apos @ '' is currently unavailable'',
                     res_Metadata = [],
                     res_ExecutionID = rt_generateExecutionID rt w1,
                     res_Timestamp = rt_Now rt w1, res_Duration = 0\<rparr>, tr, w1)
           | (True, w1) \<Rightarrow>
               if t_RequiresConfirmation tool \<and> \<not> ex_Confirmed execution then
                 (Inr \<lparr>res_Success = False, res_Data = INil,
                       res_Error = ''confirmation required'',
                       res_Message = ''Tool '' @ apos @ ex_ToolName execution @ apos @
                                     '' requires user confirmation before execution'',
                       res_Metadata = [(''requires_confirmation'', IBool True),
                                       (''estimated_cost'', IInt (t_GetEstimatedCost tool))],
                       res_ExecutionID = rt_generateExecutionID rt w1,
                       res_Timestamp = rt_Now rt w1, res_Duration = 0\<rparr>, tr, w1)
               else
                 (case (case t_ValidateParameters tool of
                          None \<Rightarrow> None
                        | Some validator \<Rightarrow> validator (ex_Parameters execution)) of
                    Some err \<Rightarrow>
                      (Inr \<lparr>res_Success = False, res_Data = INil,
                            res_Error = Error err,
                            res_Message = ''Parameter validation failed for tool '' @ apos @
                                          ex_ToolName execution @ apos,
                            res_Metadata = [],
                            res_ExecutionID = rt_generateExecutionID rt w1,
                            res_Timestamp = rt_Now rt w1, res_Duration = 0\<rparr>, tr, w1)
                  | None \<Rightarrow>
                      (let start = rt_Now rt w1;
                           (res, w2) = t_Execute tool (ex_Parameters execution) w1;
                           result =
                             (case res of
                                Inl err \<Rightarrow>
                                  \<lparr>res_Success = False, res_Data = INil,
                                   res_Error = Error err,
                                   res_Message = ''Tool '' @ apos @ ex_ToolName execution @ apos @
                                                 '' execution failed'',
                                   res_Metadata = [],
                                   res_ExecutionID = rt_generateExecutionID rt w2,
                                   res_Timestamp = rt_Now rt w2,
                                   res_Duration = rt_Now rt w2 - start\<rparr>
                              | Inr r \<Rightarrow> r\<lparr>res_Duration := rt_Now rt w2 - start\<rparr>)
                       in (Inr result, recordExecution tr execution result, w2)))))"


section \<open>\<open>strings.TrimSpace\<close>\<close>

text \<open>
  \<open>strings.TrimSpace\<close> removes leading and trailing white space as \<open>unicode.IsSpace\<close>
  defines it, on the UTF-8 bytes of the string: the six ASCII characters, U+0085 and
  U+00A0 (two bytes), and U+1680, U+2000 to U+200A, U+2028, U+2029, U+202F, U+205F and
  U+3000 (three bytes).  A byte that starts none of these encodings ends the trimming.
\<close>

definition asciiSpace :: "char \<Rightarrow> bool" where
  "asciiSpace c \<longleftrightarrow> c = CHR 0x09 \<or> c = CHR 0x0A \<or> c = CHR 0x0B \<or> c = CHR 0x0C \<or> c = CHR 0x0D \<or> c = CHR 0x20"

definition space2 :: "char \<Rightarrow> char \<Rightarrow> bool" where
  "space2 a b \<longleftrightarrow> a = CHR 0xC2 \<and> (b = CHR 0x85 \<or> b = CHR 0xA0)"

definition space3 :: "char \<Rightarrow> char \<Rightarrow> char \<Rightarrow> bool" where
  "space3 a b c \<longleftrightarrow>
     (a = CHR 0xE1 \<and> b = CHR 0x9A \<and> c = CHR 0x80) \<or>
     (a = CHR 0xE2 \<and> b = CHR 0x80 \<and>
        (((0x80::nat) \<le> of_char c \<and> (of_char c :: nat) \<le> 0x8A) \<or>
         c = CHR 0xA8 \<or> c = CHR 0xA9 \<or> c = CHR 0xAF)) \<or>
     (a = CHR 0xE2 \<and> b = CHR 0x81 \<and> c = CHR 0x9F) \<or>
     (a = CHR 0xE3 \<and> b = CHR 0x80 \<and> c = CHR 0x80)"

fun TrimLeftSpace :: "string \<Rightarrow> string" where
  "TrimLeftSpace (a # b # c # rest) =
     (if asciiSpace a then TrimLeftSpace (b # c # rest)
      else if space2 a b then TrimLeftSpace (c # rest)
      else if space3 a b c then TrimLeftSpace rest
      else a # b # c # rest)"
| "TrimLeftSpace [a, b] =
     (if asciiSpace a then TrimLeftSpace [b]
      else if space2 a b then []
      else [a, b])"
| "TrimLeftSpace [a] = (if asciiSpace a then [] else [a])"
| "TrimLeftSpace [] = []"

text \<open>The same from the end, on the reversed string (last byte first).\<close>

fun TrimRightSpace_rev :: "string \<Rightarrow> string" where
  "TrimRightSpace_rev (c # b # a # rest) =
     (if asciiSpace c then TrimRightSpace_rev (b # a # rest)
      else if space2 b c then TrimRightSpace_rev (a # rest)
      else if space3 a b c then TrimRightSpace_rev rest
      else c # b # a # rest)"
| "TrimRightSpace_rev [c, b] =
     (if asciiSpace c then TrimRightSpace_rev [b]
      else if space2 b c then []
      else [c, b])"
| "TrimRightSpace_rev [c] = (if asciiSpace c then [] else [c])"
| "TrimRightSpace_rev [] = []"

definition TrimSpace :: "string \<Rightarrow> string" where
  "TrimSpace s = rev (TrimRightSpace_rev (rev (TrimLeftSpace s)))"

section \<open>The agent (package agent)\<close>

record 'w ConversationOptions =
  MaxTokens :: int
  Temperature :: real
  SystemPrompt :: string
  ContextLimit :: int
  StatusCallback :: "(string \<Rightarrow> 'w \<Rightarrow> 'w) option"

text \<open>
  The fields of \<open>V3Agent\<close> that message handling uses.  \<open>currentSession\<close> is
  \<open>None\<close> for \<open>nil\<close> and holds the session's \<open>SessionID\<close> otherwise.  The memory
  manager, the prompt cache and \<open>buildToolsForLLM\<close> (which lists the registry's
  tools) are collaborators of the loop and are taken as given functions of the world.
\<close>

record 'w V3Agent =
  currentSession :: "string option"
  llmProvider :: "'w Provider"
  toolRegistry :: "'w ToolRegistry"
  runtime :: "'w Runtime"
  AddMessageToCurrentSession :: "Message \<Rightarrow> 'w \<Rightarrow> error option \<times> 'w"
  GetContextForQuery :: "string \<Rightarrow> int \<Rightarrow> 'w \<Rightarrow> Message list \<times> 'w"
  buildToolsForLLM :: "'w \<Rightarrow> FunctionTool list \<times> 'w"
  buildSystemPromptCached :: "bool \<Rightarrow> 'w \<Rightarrow> string \<times> 'w"

definition maxDepth :: int where
  "maxDepth = 20"

definition minSearches :: int where
  "minSearches = 8"

text \<open>
  A status line of the streaming mode: \<open>opts.StatusCallback(message)\<close> when a callback
  is set, \<open>fmt.Printf("%s\n", message)\<close> otherwise.
\<close>

definition emit_status :: "'w V3Agent \<Rightarrow> 'w ConversationOptions \<Rightarrow> string \<Rightarrow> 'w \<Rightarrow> 'w" where
  "emit_status a opts message w =
     (case StatusCallback opts of
        Some cb \<Rightarrow> cb message w
      | None \<Rightarrow> rt_Printf (runtime a) (message @ newline) w)"

subsection \<open>\<open>countSearchAttempts\<close>\<close>

definition countSearchAttempts :: "Message list \<Rightarrow> int" where
  "countSearchAttempts messages =
     fold (\<lambda>msg count.
             if Role msg = ''assistant''
             then fold (\<lambda>toolCall count. if fc_Name (tc_Function toolCall) = ''kbase'' then count + 1 else count)
                       (ToolCalls msg) count
             else count)
          messages 0"

subsection \<open>\<open>executeToolCall\<close>\<close>

definition executeToolCall ::
  "'w V3Agent \<Rightarrow> ToolCall \<Rightarrow> 'w \<Rightarrow> (error + string) \<times> 'w V3Agent \<times> 'w" where
  "executeToolCall a toolCall w =
     (case rt_Unmarshal (runtime a) (fc_Arguments (tc_Function toolCall)) of
        Inl err \<Rightarrow> (Inl (errorString (''failed to parse arguments: '' @ Error err)), a, w)
      | Inr args \<Rightarrow>
          (let execution = \<lparr>ex_ToolName = fc_Name (tc_Function toolCall),
                            ex_Parameters = args,
                            ex_RequestID = [], ex_UserID = [], ex_SessionID = [],
                            ex_Confirmed = True,
                            ex_Timestamp = rt_Now (runtime a) w\<rparr>
           in case ExecuteTool (runtime a) (toolRegistry a) execution w of
                (Inl err, tr', w') \<Rightarrow> (Inl err, a\<lparr>toolRegistry := tr'\<rparr>, w')
              | (Inr result, tr', w') \<Rightarrow>
                  if \<not> res_Success result then
                    (Inl (errorString (''tool execution failed: '' @ res_Error result)),
                     a\<lparr>toolRegistry := tr'\<rparr>, w')
                  else
                    (Inr (if fc_Name (tc_Function toolCall) = ''file_read'' \<and> res_Data result \<noteq> INil
                          then (case res_Data result of
                                  IMap dataMap \<Rightarrow>
                                    (case map_of dataMap ''content'' of
                                       Some (IStr contentStr) \<Rightarrow> contentStr
                                     | _ \<Rightarrow> res_Message result)
                                | _ \<Rightarrow> res_Message result)
                          else res_Message result),
                     a\<lparr>toolRegistry := tr'\<rparr>, w')))"



subsection \<open>\<open>handleToolCallsWithDepthLimitStreaming\<close>\<close>

text \<open>The message synthesized when the loop is entered at \<open>depth >= maxDepth\<close>.\<close>

definition exhaustive_search_advice :: string where
  "exhaustive_search_advice =
     '', I could not find the specific information you requested in the available documentation. This may indicate:'' @
     newline @ newline @
     ''1. The information might be in a different location or format'' @ newline @
     ''2. The documentation might be incomplete for this specific query'' @ newline @
     ''3. The feature might not be documented yet'' @ newline @ newline @
     ''Please:'' @ newline @
     ''- Try rephrasing your question with different keywords'' @ newline @
     ''- Specify the exact API operation you need'' @ newline @
     ''- Check if there are additional documentation sources'' @ newline @ newline"

definition exhaustive_search_message :: "int \<Rightarrow> string" where
  "exhaustive_search_message searchCount =
     ''After exhaustive search '' @ (''('' @ fmt_d searchCount @ '' attempts)'') @
     exhaustive_search_advice @
     (''Search attempts made: '' @ fmt_d searchCount)"

definition force_complete_response :: "CompletionResponse \<Rightarrow> int \<Rightarrow> CompletionResponse" where
  "force_complete_response initialResp searchCount =
     (let trimmedContent = TrimSpace (resp_Content initialResp)
      in if resp_Content initialResp = [] \<or> HasSuffix trimmedContent '':'' \<or> length trimmedContent < 100
         then initialResp\<lparr>resp_Content := exhaustive_search_message searchCount\<rparr>
         else initialResp)"

text \<open>The loop \<open>for i, toolCall := range initialResp.ToolCalls\<close>; \<open>i\<close> counts from 0.\<close>

fun execute_tool_calls ::
  "'w V3Agent \<Rightarrow> 'w ConversationOptions \<Rightarrow> bool \<Rightarrow> nat \<Rightarrow> nat \<Rightarrow> ToolCall list \<Rightarrow> Message list \<Rightarrow> 'w
     \<Rightarrow> Message list \<times> 'w V3Agent \<times> 'w" where
  "execute_tool_calls a opts enableStreaming ntotal i [] messages w = (messages, a, w)"
| "execute_tool_calls a opts enableStreaming ntotal i (toolCall # rest) messages w =
     (let w1 = (if enableStreaming
                then emit_status a opts
                       (''Searching '' @ fmt_d (int i + 1) @ ''/'' @ fmt_d (int ntotal) @ ''...'') w
                else w);
          (res, a1, w2) = executeToolCall a toolCall w1;
          toolContent =
            (case res of
               Inl err \<Rightarrow> ''Error executing '' @ fc_Name (tc_Function toolCall) @ '': '' @ Error err
             | Inr result \<Rightarrow>
                 if result = [] then ''Tool executed successfully with no output.'' else result)
      in execute_tool_calls a1 opts enableStreaming ntotal (Suc i) rest
           (messages @ [\<lparr>Role = ''tool'', Content = toolContent, ToolCalls = [],
                         ToolCallID = tc_ID toolCall\<rparr>]) w2)"

definition final_answer_instruction :: string where
  "final_answer_instruction =
     newline @ newline @ ''IMPORTANT: You'' @ apos @
     ''ve reached the maximum search depth. Provide a complete final answer based on the information you'' @ apos @
     ''ve already gathered. Do not promise further searches.''"

definition siren :: string where
  "siren = [CHR 0xF0, CHR 0x9F, CHR 0x9A, CHR 0xA8]"

definition arrow :: string where
  "arrow = [CHR 0xE2, CHR 0x86, CHR 0x92]"

definition forceSearchMsg :: "int \<Rightarrow> Message" where
  "forceSearchMsg searchCount =
     \<lparr>Role = ''system'',
      Content =
        siren @ '' SEARCH REQUIREMENT '' @ siren @ newline @
        ''You have made '' @ fmt_d searchCount @ ''/'' @ fmt_d minSearches @
        '' searches. Continue searching until you find useful information or reach '' @
        fmt_d minSearches @ '' total searches.'' @ newline @ newline @
        ''INTELLIGENT SEARCH STRATEGIES:'' @ newline @
        ''- Try business domain alternatives (bonus'' @ arrow @ ''voucher, reservation'' @ arrow @ ''booking)'' @ newline @
        ''- Use singular/plural variations'' @ newline @
        ''- Combine with API terms (endpoint, list, get, create)'' @ newline @
        ''- Think conceptually: what business function does the user want?'' @ newline @
        ''- Try abbreviated forms and technical variations'' @ newline @ newline @
        ''If you found useful information in recent searches, you may provide an answer. Otherwise, use the kbase tool with COMPLETELY DIFFERENT search terms.'',
      ToolCalls = [], ToolCallID = []\<rparr>"

text \<open>
  The scan of the last four messages, from the last one backwards: the number of tool
  results that look useful and their concatenated contents.
\<close>

definition recent_tool_results :: "'w V3Agent \<Rightarrow> Message list \<Rightarrow> nat \<times> string" where
  "recent_tool_results a messages =
     fold (\<lambda>m (recentToolResults, recentToolContent).
             if Role m = ''tool'' \<and> length (Content m) > 200 then
               (let content = rt_ToLower (runtime a) (Content m)
                in if Contains content ''endpoint'' \<or> Contains content ''/api/'' \<or>
                      Contains content ''get '' \<or> Contains content ''post '' \<or>
                      Contains content ''put '' \<or> Contains content ''delete '' \<or>
                      Contains content ''http'' \<or> Contains content ''model/''
                   then (Suc recentToolResults, recentToolContent @ Content m @ '' '')
                   else (recentToolResults, recentToolContent))
             else (recentToolResults, recentToolContent))
          (rev (drop (length messages - 4) messages)) (0, [])"

text \<open>
  Building \<open>finalReq\<close> (the forcing logic between the tool loop and the provider call).
  \<open>finalReq.Messages\<close> shares its array with \<open>messages\<close>, so the request sees the
  change made through \<open>lastMessage\<close>; an appended message reaches the request
  through the assignment \<open>finalReq.Messages = messages\<close>.
\<close>

definition build_finalReq ::
  "'w V3Agent \<Rightarrow> 'w ConversationOptions \<Rightarrow> int \<Rightarrow> bool \<Rightarrow> Message list \<Rightarrow> 'w
     \<Rightarrow> CompletionRequest \<times> Message list \<times> 'w" where
  "build_finalReq a opts depth enableStreaming messages w =
     (let finalReq = \<lparr>req_Messages = messages, req_Model = [], req_MaxTokens = MaxTokens opts,
                      req_Temperature = Temperature opts, req_Stream = False,
                      req_Tools = [], req_ToolChoice = []\<rparr>;
          searchCount = countSearchAttempts messages
      in if depth \<ge> maxDepth - 1 then
           (let messages1 =
                  (if length messages > 0 \<and> Role (last messages) = ''assistant''
                   then butlast messages @
                        [(last messages)\<lparr>Content := Content (last messages) @ final_answer_instruction\<rparr>]
                   else messages);
                w1 = (if enableStreaming then emit_status a opts ''Max search depth reached...'' w else w)
            in (finalReq\<lparr>req_Messages := messages1, req_Tools := [], req_ToolChoice := []\<rparr>, messages1, w1))
         else if searchCount < minSearches then
           (let (recentToolResults, recentToolContent) = recent_tool_results a messages
            in if recentToolResults = 0 \<or> length recentToolContent < 500 then
                 (let (tls, w1) = buildToolsForLLM a w;
                      messages1 =
                        (if length messages > 0 \<and> Role (last messages) = ''tool''
                         then messages @ [forceSearchMsg searchCount]
                         else messages);
                      w2 = (if enableStreaming
                            then emit_status a opts
                                   (''Forcing more searches ('' @ fmt_d searchCount @ ''/'' @
                                    fmt_d minSearches @ '')...'') w1
                            else w1)
                  in (finalReq\<lparr>req_Messages := messages1, req_Tools := tls, req_ToolChoice := ''auto''\<rparr>,
                      messages1, w2))
               else
                 (let (tls, w1) = buildToolsForLLM a w;
                      w2 = (if enableStreaming
                            then emit_status a opts
                                   (''Found useful information after '' @ fmt_d searchCount @
                                    '' searches...'') w1
                            else w1)
                  in (finalReq\<lparr>req_Tools := tls, req_ToolChoice := ''auto''\<rparr>, messages, w2)))
         else
           (let (tls, w1) = buildToolsForLLM a w
            in (finalReq\<lparr>req_Tools := tls, req_ToolChoice := ''auto''\<rparr>, messages, w1)))"

text \<open>
  The body below the depth check, up to the request: the assistant message, the tool
  calls, \<open>finalReq\<close>.
\<close>

definition prepare_round ::
  "'w V3Agent \<Rightarrow> CompletionResponse \<Rightarrow> Message list \<Rightarrow> 'w ConversationOptions \<Rightarrow> int \<Rightarrow> bool \<Rightarrow> 'w
     \<Rightarrow> CompletionRequest \<times> Message list \<times> 'w V3Agent \<times> 'w" where
  "prepare_round a initialResp messages opts depth enableStreaming w =
     (let content = (if resp_Content initialResp = []
                     then ''I'' @ apos @ ''ll use some tools to help answer your question.''
                     else resp_Content initialResp);
          messages1 = messages @ [\<lparr>Role = ''assistant'', Content = content,
                                   ToolCalls = resp_ToolCalls initialResp, ToolCallID = []\<rparr>];
          (messages2, a1, w1) =
             execute_tool_calls a opts enableStreaming (length (resp_ToolCalls initialResp)) 0
               (resp_ToolCalls initialResp) messages1 w;
          w2 = (if enableStreaming then emit_status a1 opts ''Processing results...'' w1 else w1);
          (finalReq, messages3, w3) = build_finalReq a1 opts depth enableStreaming messages2 w2
      in (finalReq, messages3, a1, w3))"

text \<open>The same, followed by \<open>a.llmProvider.Complete(ctx, finalReq)\<close>.\<close>

definition tool_round ::
  "'w V3Agent \<Rightarrow> CompletionResponse \<Rightarrow> Message list \<Rightarrow> 'w ConversationOptions \<Rightarrow> int \<Rightarrow> bool \<Rightarrow> 'w
     \<Rightarrow> (error + CompletionResponse) \<times> Message list \<times> 'w V3Agent \<times> 'w" where
  "tool_round a initialResp messages opts depth enableStreaming w =
     (let (finalReq, messages3, a1, w3) = prepare_round a initialResp messages opts depth enableStreaming w;
          (res, w4) = p_Complete (llmProvider a1) finalReq w3
      in (res, messages3, a1, w4))"

text \<open>The branch \<open>if err != nil\<close> after the provider call.\<close>

definition retry_response :: "int \<Rightarrow> int \<Rightarrow> CompletionResponse" where
  "retry_response searchCount depth =
     \<lparr>resp_Content = ''Continuing search... ('' @ fmt_d searchCount @ ''/'' @ fmt_d minSearches @
                       '' attempts made)'',
      resp_Model = [],
      resp_Usage = \<lparr>PromptTokens = 0, CompletionTokens = 0, TotalTokens = 0\<rparr>,
      resp_ResponseTime = 0,
      resp_ToolCalls =
        [\<lparr>tc_ID = ''retry_search_'' @ fmt_d depth, tc_Type = ''function'',
          tc_Function = \<lparr>fc_Name = ''kbase'',
                          fc_Arguments = ''{'' @ dquote @ ''query'' @ dquote @ '': '' @ dquote @
                                         ''alternative search terms'' @ dquote @ ''}''\<rparr>\<rparr>]\<rparr>"

definition provider_failed :: "Message list \<Rightarrow> int \<Rightarrow> CompletionResponse" where
  "provider_failed messages depth =
     (let searchCount = countSearchAttempts messages
      in if searchCount < minSearches \<and> depth < maxDepth - 2 then retry_response searchCount depth
         else
           (let toolResults = map Content (filter (\<lambda>m. Role m = ''tool'' \<and> Content m \<noteq> []) (rev messages));
                fallbackContent =
                  (if length toolResults > 0
                   then ''After '' @ fmt_d searchCount @
                        '' searches, I found some information but am having trouble presenting it properly. Could you please rephrase your question?''
                   else ''After '' @ fmt_d searchCount @
                        '' search attempts, I'' @ apos @
                        ''m experiencing technical difficulties. Please try rephrasing your question.'')
            in \<lparr>resp_Content = fallbackContent, resp_Model = [],
                resp_Usage = \<lparr>PromptTokens = 0, CompletionTokens = 0, TotalTokens = 0\<rparr>,
                resp_ResponseTime = 0, resp_ToolCalls = []\<rparr>))"

function handleToolCallsWithDepthLimitStreaming ::
  "'w V3Agent \<Rightarrow> CompletionResponse \<Rightarrow> Message list \<Rightarrow> 'w ConversationOptions \<Rightarrow> int \<Rightarrow> bool \<Rightarrow> 'w
     \<Rightarrow> (error + CompletionResponse) \<times> 'w V3Agent \<times> 'w" where
  "handleToolCallsWithDepthLimitStreaming a initialResp messages opts depth enableStreaming w =
     (if depth \<ge> maxDepth then
        (Inr (force_complete_response initialResp (countSearchAttempts messages)), a, w)
      else
        (case tool_round a initialResp messages opts depth enableStreaming w of
           (Inl err, messages', a', w') \<Rightarrow> (Inr (provider_failed messages' depth), a', w')
         | (Inr finalResp, messages', a', w') \<Rightarrow>
             if length (resp_ToolCalls finalResp) > 0 \<and> depth < maxDepth - 1 then
               handleToolCallsWithDepthLimitStreaming a' finalResp messages' opts (depth + 1) enableStreaming
                 (if enableStreaming
                  then emit_status a' opts (''Continuing search (depth '' @ fmt_d (depth + 1) @ '')...'') w'
                  else w')
             else (Inr finalResp, a', w')))"
  by pat_completeness auto
termination
  by (relation "measure (\<lambda>(a, initialResp, messages, opts, depth, enableStreaming, w). nat (maxDepth - depth))")
     auto

declare handleToolCallsWithDepthLimitStreaming.simps [simp del]

text \<open>
  The same function with a budget of invocations: \<open>None\<close> when the budget is used up
  before the loop has returned.
\<close>

fun handleToolCalls_within ::
  "nat \<Rightarrow> 'w V3Agent \<Rightarrow> CompletionResponse \<Rightarrow> Message list \<Rightarrow> 'w ConversationOptions \<Rightarrow> int \<Rightarrow> bool \<Rightarrow> 'w
     \<Rightarrow> ((error + CompletionResponse) \<times> 'w V3Agent \<times> 'w) option" where
  "handleToolCalls_within 0 a initialResp messages opts depth enableStreaming w = None"
| "handleToolCalls_within (Suc n) a initialResp messages opts depth enableStreaming w =
     (if depth \<ge> maxDepth then
        Some (Inr (force_complete_response initialResp (countSearchAttempts messages)), a, w)
      else
        (case tool_round a initialResp messages opts depth enableStreaming w of
           (Inl err, messages', a', w') \<Rightarrow> Some (Inr (provider_failed messages' depth), a', w')
         | (Inr finalResp, messages', a', w') \<Rightarrow>
             if length (resp_ToolCalls finalResp) > 0 \<and> depth < maxDepth - 1 then
               handleToolCalls_within n a' finalResp messages' opts (depth + 1) enableStreaming
                 (if enableStreaming
                  then emit_status a' opts (''Continuing search (depth '' @ fmt_d (depth + 1) @ '')...'') w'
                  else w')
             else Some (Inr finalResp, a', w')))"

subsection \<open>\<open>sendMessageInternal\<close>\<close>

definition warning_sign :: string where
  "warning_sign = [CHR 0xE2, CHR 0x9A, CHR 0xA0, CHR 0xEF, CHR 0xB8, CHR 0x8F]"

text \<open>The response built when the first completion fails.\<close>

definition technical_difficulties :: "error \<Rightarrow> CompletionResponse" where
  "technical_difficulties err =
     \<lparr>resp_Content =
        ''I'' @ apos @ ''m experiencing technical difficulties. Error: '' @ Error err @
        newline @ newline @
        ''Please try rephrasing your question or ask something simpler.'',
      resp_Model = [],
      resp_Usage = \<lparr>PromptTokens = 0, CompletionTokens = 0, TotalTokens = 0\<rparr>,
      resp_ResponseTime = 0, resp_ToolCalls = []\<rparr>"

text \<open>
  \<open>opts\<close> is the options in effect (\<open>options[0]\<close>, or \<open>DefaultConversationOptions()\<close>).
  The lines written with \<open>log.Printf\<close>, the flag \<open>contextAdded\<close> and the summary
  started in a goroutine at the end are left out; the call of \<open>IsAvailable\<close> made
  for the log is kept.
\<close>

definition sendMessageInternal ::
  "'w V3Agent \<Rightarrow> string \<Rightarrow> bool \<Rightarrow> 'w ConversationOptions \<Rightarrow> 'w
     \<Rightarrow> (error + CompletionResponse) \<times> 'w V3Agent \<times> 'w" where
  "sendMessageInternal a message enableStreaming opts w =
     (if currentSession a = None then (Inl (errorString ''no active conversation session''), a, w)
      else
        (let (avail, w1) = p_IsAvailable (llmProvider a) w;
             w2 = (if enableStreaming then emit_status a opts ''Processing request...'' w1 else w1);
             (addErr, w3) = AddMessageToCurrentSession a
                              \<lparr>Role = ''user'', Content = message, ToolCalls = [], ToolCallID = []\<rparr> w2
         in case addErr of
              Some err \<Rightarrow>
                (Inl (errorString (''failed to add message to session: '' @ Error err)), a, w3)
            | None \<Rightarrow>
                (let w4 = (if enableStreaming then emit_status a opts ''Preparing tools...'' w3 else w3);
                     (availableTools, w5) = buildToolsForLLM a w4;
                     w6 = (if enableStreaming then emit_status a opts ''Building context...'' w5 else w5);
                     (contextMessages0, w7) = GetContextForQuery a message (ContextLimit opts) w6;
                     (systemPrompt0, w8) = buildSystemPromptCached a (length availableTools > 0) w7;
                     systemPrompt =
                       (if SystemPrompt opts \<noteq> []
                        then systemPrompt0 @ newline @ newline @ ''Additional instructions: '' @ SystemPrompt opts
                        else systemPrompt0);
                     contextMessages =
                       \<lparr>Role = ''system'', Content = systemPrompt, ToolCalls = [], ToolCallID = []\<rparr>
                       # contextMessages0;
                     req = \<lparr>req_Messages = contextMessages, req_Model = [],
                            req_MaxTokens = MaxTokens opts, req_Temperature = Temperature opts,
                            req_Stream = False, req_Tools = availableTools, req_ToolChoice = ''auto''\<rparr>;
                     w9 = (if enableStreaming then emit_status a opts ''Thinking...'' w8 else w8);
                     (res, w10) = p_Complete (llmProvider a) req w9;
                     (resp, a1, w11) =
                       (case res of
                          Inl err \<Rightarrow> (technical_difficulties err, a, w10)
                        | Inr resp0 \<Rightarrow>
                            if length (resp_ToolCalls resp0) > 0 then
                              (let w10a = (if enableStreaming
                                           then emit_status a opts
                                                  (''Searching documentation ('' @
                                                   fmt_d (int (length (resp_ToolCalls resp0))) @ '' searches)...'') w10
                                           else w10)
                               in case handleToolCallsWithDepthLimitStreaming a resp0 contextMessages opts 0
                                         enableStreaming w10a of
                                    (Inl toolErr, a', w') \<Rightarrow>
                                      (resp0\<lparr>resp_Content :=
                                               resp_Content resp0 @ newline @ newline @ warning_sign @
                                               '' I attempted to use tools but encountered an issue: '' @
                                               Error toolErr @ newline @
                                               ''I can help with general questions without external data.''\<rparr>,
                                       a', w')
                                  | (Inr toolResp, a', w') \<Rightarrow> (toolResp, a', w'))
                            else (resp0, a, w10));
                     (addErr2, w12) = AddMessageToCurrentSession a1
                                        \<lparr>Role = ''assistant'', Content = resp_Content resp,
                                         ToolCalls = [], ToolCallID = []\<rparr> w11
                 in case addErr2 of
                      Some err \<Rightarrow>
                        (Inl (errorString (''failed to add response to session: '' @ Error err)), a1, w12)
                    | None \<Rightarrow> (Inr resp, a1, w12))))"

definition SendMessage ::
  "'w V3Agent \<Rightarrow> string \<Rightarrow> 'w ConversationOptions \<Rightarrow> 'w
     \<Rightarrow> (error + CompletionResponse) \<times> 'w V3Agent \<times> 'w" where
  "SendMessage a message opts w = sendMessageInternal a message False opts w"

section \<open>Notions used to state the properties\<close>

subsection \<open>One provider's turn in the fallback loop\<close>

text \<open>
  What a provider does when the fallback loop reaches it in world \<open>w\<close>: it is
  probed, and asked to complete only when it says it is available.
\<close>

datatype outcome = Unavailable | Failed error | Succeeded CompletionResponse

definition attempt :: "'w Provider \<Rightarrow> CompletionRequest \<Rightarrow> 'w \<Rightarrow> outcome \<times> 'w" where
  "attempt p req w =
     (case p_IsAvailable p w of
        (False, w1) \<Rightarrow> (Unavailable, w1)
      | (True, w1) \<Rightarrow>
          (case p_Complete p req w1 of
             (Inl e, w2) \<Rightarrow> (Failed e, w2)
           | (Inr r, w2) \<Rightarrow> (Succeeded r, w2)))"

fun world_after :: "'w Provider list \<Rightarrow> CompletionRequest \<Rightarrow> 'w \<Rightarrow> 'w" where
  "world_after [] req w = w"
| "world_after (p # ps) req w = world_after ps req (snd (attempt p req w))"

fun is_Succeeded :: "outcome \<Rightarrow> bool" where
  "is_Succeeded (Succeeded r) = True"
| "is_Succeeded Unavailable = False"
| "is_Succeeded (Failed e) = False"

text \<open>Every provider of \<open>ps\<close>, tried in order from world \<open>w\<close>, is unavailable or fails.\<close>

definition none_succeeds :: "'w Provider list \<Rightarrow> CompletionRequest \<Rightarrow> 'w \<Rightarrow> bool" where
  "none_succeeds ps req w \<longleftrightarrow>
     (\<forall>i<length ps. \<not> is_Succeeded (fst (attempt (ps ! i) req (world_after (take i ps) req w))))"

text \<open>The error the loop keeps in \<open>lastError\<close> after a provider's turn.\<close>

fun attempt_error :: "'w Provider \<Rightarrow> outcome \<Rightarrow> error option" where
  "attempt_error p Unavailable =
     Some (ProviderError (p_GetName p) ErrorTypeNetwork ''provider not available'' None)"
| "attempt_error p (Failed e) = Some e"
| "attempt_error p (Succeeded r) = None"

definition fallback_types :: "string set" where
  "fallback_types = {ErrorTypeAuth, ErrorTypeQuotaExceed, ErrorTypeRateLimit}"

text \<open>The error is a \<open>*ProviderError\<close> whose \<open>Type\<close> is one of \<open>T\<close>.\<close>

fun error_type_in :: "string set \<Rightarrow> error \<Rightarrow> bool" where
  "error_type_in T (ProviderError p t m e) = (t \<in> T)"
| "error_type_in T (errorString s) = False"

subsection \<open>Search attempts, as the specification words them\<close>

text \<open>
  The number of tool calls, in assistant messages, whose function name is the name of
  the search tool.
\<close>

definition search_tool_name :: string where
  "search_tool_name = ''kbase''"

definition search_calls :: "Message list \<Rightarrow> ToolCall list" where
  "search_calls messages =
     filter (\<lambda>tc. fc_Name (tc_Function tc) = search_tool_name)
       (concat (map ToolCalls (filter (\<lambda>m. Role m = ''assistant'') messages)))"

subsection \<open>The first completion of \<open>sendMessageInternal\<close>\<close>


subsection \<open>Results of the gate\<close>

text \<open>
  The results \<open>ExecuteTool\<close> builds when a confirmation is missing and when the tool
  is unavailable, and a registry in which one tool's \<open>Execute\<close> is replaced by \<open>g\<close>.
\<close>

definition confirmation_required_result :: "'w Runtime \<Rightarrow> 'w Tool \<Rightarrow> string \<Rightarrow> 'w \<Rightarrow> ToolResult" where
  "confirmation_required_result rt tool name w1 =
     \<lparr>res_Success = False, res_Data = INil,
      res_Error = ''confirmation required'',
      res_Message = ''Tool '' @ apos @ name @ apos @ '' requires user confirmation before execution'',
      res_Metadata = [(''requires_confirmation'', IBool True),
                      (''estimated_cost'', IInt (t_GetEstimatedCost tool))],
      res_ExecutionID = rt_generateExecutionID rt w1,
      res_Timestamp = rt_Now rt w1, res_Duration = 0\<rparr>"

definition unavailable_result :: "'w Runtime \<Rightarrow> string \<Rightarrow> 'w \<Rightarrow> ToolResult" where
  "unavailable_result rt name w1 =
     \<lparr>res_Success = False, res_Data = INil,
      res_Error = ''tool is not available'',
      res_Message = ''Tool '' @ apos @ name @ apos @ '' is currently unavailable'',
      res_Metadata = [],
      res_ExecutionID = rt_generateExecutionID rt w1,
      res_Timestamp = rt_Now rt w1, res_Duration = 0\<rparr>"

definition with_Execute ::
  "'w ToolRegistry \<Rightarrow> string \<Rightarrow> (params \<Rightarrow> 'w \<Rightarrow> (error + ToolResult) \<times> 'w) \<Rightarrow> 'w ToolRegistry" where
  "with_Execute tr name g =
     (case tools tr name of
        None \<Rightarrow> tr
      | Some tool \<Rightarrow> tr\<lparr>tools := (tools tr)(name \<mapsto> tool\<lparr>t_Execute := g\<rparr>)\<rparr>)"

subsection \<open>The tool calls of a round\<close>



text \<open>The same agent with tools none of which asks for confirmation.\<close>

definition no_confirmation :: "'w V3Agent \<Rightarrow> 'w V3Agent" where
  "no_confirmation a =
     a\<lparr>toolRegistry :=
         (toolRegistry a)\<lparr>tools :=
            (\<lambda>name. map_option (\<lambda>t. t\<lparr>t_RequiresConfirmation := False\<rparr>) (tools (toolRegistry a) name))\<rparr>\<rparr>"

subsection \<open>Concrete collaborators for the examples\<close>

text \<open>
  The examples run in a world that is the list of the effects so far, oldest first.
\<close>

datatype event = Probed string | Completed string | Executed string | Printed string

definition stub_provider ::
  "string \<Rightarrow> bool \<Rightarrow> (error + CompletionResponse) \<Rightarrow> (event list) Provider" where
  "stub_provider name avail result =
     \<lparr>p_GetName = name,
      p_IsAvailable = (\<lambda>w. (avail, w @ [Probed name])),
      p_Complete = (\<lambda>req w. (result, w @ [Completed name]))\<rparr>"

text \<open>
  A provider that answers its \<open>k\<close>-th completion with the \<open>k\<close>-th entry of a script, and
  with a fixed answer once the script is used up.
\<close>

definition completions_so_far :: "event list \<Rightarrow> nat" where
  "completions_so_far w = length (filter (\<lambda>e. case e of Completed n \<Rightarrow> True | _ \<Rightarrow> False) w)"

definition scripted_provider ::
  "string \<Rightarrow> (error + CompletionResponse) list \<Rightarrow> (error + CompletionResponse) \<Rightarrow> (event list) Provider" where
  "scripted_provider name script dflt =
     \<lparr>p_GetName = name,
      p_IsAvailable = (\<lambda>w. (True, w)),
      p_Complete = (\<lambda>req w.
         (if completions_so_far w < length script then script ! completions_so_far w else dflt,
          w @ [Completed name]))\<rparr>"

definition no_usage :: TokenUsage where
  "no_usage = \<lparr>PromptTokens = 0, CompletionTokens = 0, TotalTokens = 0\<rparr>"

definition ok_response :: CompletionResponse where
  "ok_response = \<lparr>resp_Content = ''ok'', resp_Model = ''m'', resp_Usage = no_usage,
            resp_ResponseTime = 0, resp_ToolCalls = []\<rparr>"

definition empty_request :: CompletionRequest where
  "empty_request = \<lparr>req_Messages = [], req_Model = [], req_MaxTokens = 0, req_Temperature = 0,
           req_Stream = False, req_Tools = [], req_ToolChoice = []\<rparr>"

definition rate_err :: error where
  "rate_err = ProviderError ''A'' ErrorTypeRateLimit ''slow down'' None"

definition auth_err :: error where
  "auth_err = ProviderError ''B'' ErrorTypeAuth ''bad key'' None"

definition server_err :: error where
  "server_err = ProviderError ''S'' ErrorTypeServerError ''boom'' None"

definition stub_result :: "string \<Rightarrow> ToolResult" where
  "stub_result name =
     \<lparr>res_Success = True, res_Data = INil, res_Error = [], res_Message = ''result of '' @ name,
      res_Metadata = [], res_ExecutionID = ''x'', res_Timestamp = 0, res_Duration = 0\<rparr>"

definition stub_tool :: "string \<Rightarrow> bool \<Rightarrow> bool \<Rightarrow> (event list) Tool" where
  "stub_tool name avail confirm =
     \<lparr>t_GetName = name,
      t_Execute = (\<lambda>ps w. (Inr (stub_result name), w @ [Executed name])),
      t_IsAvailable = (\<lambda>w. (avail, w)),
      t_RequiresConfirmation = confirm,
      t_GetEstimatedCost = 5,
      t_ValidateParameters = None\<rparr>"

definition ascii_lower :: "string \<Rightarrow> string" where
  "ascii_lower s =
     map (\<lambda>c. if (65::nat) \<le> of_char c \<and> (of_char c :: nat) \<le> 90 then char_of (of_char c + (32::nat)) else c) s"

definition stub_runtime :: "(event list) Runtime" where
  "stub_runtime =
     \<lparr>rt_Now = (\<lambda>w. int (length w)),
      rt_generateExecutionID = (\<lambda>w. ''exec_'' @ fmt_d (int (length w))),
      rt_Unmarshal = (\<lambda>s. if s = [] then Inl (errorString ''unexpected end of JSON input'')
                           else Inr [(''json'', IStr s)]),
      rt_ToLower = ascii_lower,
      rt_Printf = (\<lambda>s w. w @ [Printed s])\<rparr>"

text \<open>
  A registry with the search tool, a tool that asks for confirmation, and a tool that
  asks for confirmation and is not available.
\<close>

definition stub_registry :: "(event list) ToolRegistry" where
  "stub_registry =
     \<lparr>tools = [''kbase'' \<mapsto> stub_tool ''kbase'' True False,
               ''file_write'' \<mapsto> stub_tool ''file_write'' True True,
               ''offline'' \<mapsto> stub_tool ''offline'' False True],
      history = [], maxHistory = 1000\<rparr>"

definition kbase_definition :: FunctionTool where
  "kbase_definition =
     \<lparr>ft_Type = ''function'',
      ft_Function = \<lparr>fd_Name = ''kbase'', fd_Description = ''search the documentation'',
                      fd_Parameters = []\<rparr>\<rparr>"

definition stub_agent :: "(event list) Provider \<Rightarrow> (event list) V3Agent" where
  "stub_agent p =
     \<lparr>currentSession = Some ''s1'',
      llmProvider = p,
      toolRegistry = stub_registry,
      runtime = stub_runtime,
      AddMessageToCurrentSession = (\<lambda>m w. (None, w)),
      GetContextForQuery = (\<lambda>q l w. ([], w)),
      buildToolsForLLM = (\<lambda>w. ([kbase_definition], w)),
      buildSystemPromptCached = (\<lambda>b w. (''You are V3 Agent.'', w))\<rparr>"

definition stub_opts :: "(event list) ConversationOptions" where
  "stub_opts = \<lparr>MaxTokens = 2500, Temperature = 0.7, SystemPrompt = [], ContextLimit = 4000,
                StatusCallback = None\<rparr>"

definition tool_call :: "string \<Rightarrow> string \<Rightarrow> string \<Rightarrow> ToolCall" where
  "tool_call i name args =
     \<lparr>tc_ID = i, tc_Type = ''function'', tc_Function = \<lparr>fc_Name = name, fc_Arguments = args\<rparr>\<rparr>"

text \<open>A response that asks for one search and says nothing.\<close>

definition search_request :: CompletionResponse where
  "search_request =
     \<lparr>resp_Content = [], resp_Model = ''m'', resp_Usage = no_usage, resp_ResponseTime = 0,
      resp_ToolCalls = [tool_call ''call_1'' ''kbase'' ''{}'']\<rparr>"

definition user_message :: Message where
  "user_message = \<lparr>Role = ''user'', Content = ''how do I create a customer'', ToolCalls = [], ToolCallID = []\<rparr>"

text \<open>A long answer that ends with a colon and a blank, and one that is all blanks.\<close>

definition colon_blank_response :: CompletionResponse where
  "colon_blank_response =
     \<lparr>resp_Content = ''I searched the documentation and found several candidate endpoints that may match your request, listed below: '',
      resp_Model = ''m'', resp_Usage = no_usage, resp_ResponseTime = 0, resp_ToolCalls = []\<rparr>"

definition blank_response :: CompletionResponse where
  "blank_response =
     \<lparr>resp_Content = replicate 100 (CHR '' ''),
      resp_Model = ''m'', resp_Usage = no_usage, resp_ResponseTime = 0, resp_ToolCalls = []\<rparr>"

definition unconfirmed :: "string \<Rightarrow> ToolExecution" where
  "unconfirmed name =
     \<lparr>ex_ToolName = name, ex_Parameters = [], ex_RequestID = [], ex_UserID = [], ex_SessionID = [],
      ex_Confirmed = False, ex_Timestamp = 0\<rparr>"



text \<open>The round that the loop runs at depth 0 for a provider that always asks for one more search.\<close>

definition first_round ::
  "(error + CompletionResponse) \<times> Message list \<times> (event list) V3Agent \<times> event list" where
  "first_round =
     tool_round (stub_agent (stub_provider ''P'' True (Inr search_request))) search_request
       [user_message] stub_opts 0 False []"

section \<open>The fallback provider\<close>

lemma none_succeeds_Nil: "none_succeeds [] req w"
  by (simp add: none_succeeds_def)

lemma none_succeeds_Cons:
  "none_succeeds (p # ps) req w \<longleftrightarrow>
     \<not> is_Succeeded (fst (attempt p req w)) \<and> none_succeeds ps req (snd (attempt p req w))"
proof -
  have "(\<forall>i<Suc (length ps). Q i) \<longleftrightarrow> Q 0 \<and> (\<forall>i<length ps. Q (Suc i))" for Q
    by (metis less_Suc_eq_0_disj)
  then show ?thesis by (simp add: none_succeeds_def)
qed

lemma is_fallback_error_iff: "is_fallback_error e \<longleftrightarrow> error_type_in fallback_types e"
  by (cases e) (auto simp: fallback_types_def)

lemma loop_skip_step:
  assumes "\<not> is_Succeeded (fst (attempt p req w))" "qs \<noteq> []"
  shows "\<exists>le'. Complete_loop n (p # qs) req le w = Complete_loop n qs req (Some le') (snd (attempt p req w))"
  using assms by (auto simp: attempt_def split: prod.splits bool.splits sum.splits)

lemma loop_prefix:
  assumes "none_succeeds ps req w" "qs \<noteq> []"
  shows "\<exists>le'. Complete_loop n (ps @ qs) req le w = Complete_loop n qs req le' (world_after ps req w)"
  using assms
proof (induction ps arbitrary: le w)
  case Nil
  have "Complete_loop n ([] @ qs) req le w = Complete_loop n qs req le (world_after [] req w)"
    by simp
  then show ?case by blast
next
  case (Cons p ps)
  from Cons.prems have a: "\<not> is_Succeeded (fst (attempt p req w))"
    and b: "none_succeeds ps req (snd (attempt p req w))"
    by (simp_all add: none_succeeds_Cons)
  from Cons.prems have ne: "ps @ qs \<noteq> []" by simp
  from loop_skip_step[OF a ne] obtain le1 where
    s: "Complete_loop n (p # ps @ qs) req le w = Complete_loop n (ps @ qs) req (Some le1) (snd (attempt p req w))"
    by blast
  from Cons.IH[OF b Cons.prems(2), of "Some le1"] obtain le2 where
    "Complete_loop n (ps @ qs) req (Some le1) (snd (attempt p req w)) =
       Complete_loop n qs req le2 (world_after ps req (snd (attempt p req w)))"
    by blast
  with s have "Complete_loop n ((p # ps) @ qs) req le w =
       Complete_loop n qs req le2 (world_after (p # ps) req w)"
    by simp
  then show ?case by blast
qed

lemma loop_after_prefix:
  assumes "none_succeeds ps req w"
  shows "\<exists>le'. Complete_loop n (ps @ p # qs) req le w = Complete_loop n (p # qs) req le' (world_after ps req w)"
  using loop_prefix[OF assms, of "p # qs"] by simp

lemma loop_success_head:
  assumes "attempt p req w = (Succeeded r, w')"
  shows "Complete_loop n (p # qs) req le w =
           (Inr (r\<lparr>resp_Model := resp_Model r @ '' ('' @ p_GetName p @ '')''\<rparr>), w')"
  using assms by (auto simp: attempt_def split: prod.splits bool.splits sum.splits)

lemma loop_fail_head:
  assumes "attempt p req w = (Failed e, w')"
  shows "Complete_loop n (p # qs) req le w =
           (if is_fallback_error e \<or> qs \<noteq> [] then Complete_loop n qs req (Some e) w' else (Inl e, w'))"
  using assms by (auto simp: attempt_def split: prod.splits bool.splits sum.splits)

lemma loop_unavailable_head:
  assumes "attempt p req w = (Unavailable, w')"
  shows "Complete_loop n (p # qs) req le w = Complete_loop n qs req (attempt_error p Unavailable) w'"
  using assms by (auto simp: attempt_def split: prod.splits bool.splits sum.splits)

lemmas stub_defs = stub_provider_def ok_response_def empty_request_def rate_err_def auth_err_def server_err_def
  attempt_def none_succeeds_Cons none_succeeds_Nil

text \<open>
  C6.  Let the providers before \<open>p\<close> in the list each be unavailable or fail when
  their turn comes, and let \<open>p\<close> be available and complete successfully with \<open>r\<close>.
  Then \<open>Complete\<close> returns \<open>r\<close> with the model annotated by \<open>p\<close>'s name, in the world
  that \<open>p\<close>'s completion left: the unavailable providers were passed over without an
  error, and the providers after \<open>p\<close> play no part in the result or in the effects.
\<close>

theorem fallback_short_circuit:
  assumes "providers f = ps @ p # qs"
      and "none_succeeds ps req w"
      and "attempt p req (world_after ps req w) = (Succeeded r, w')"
  shows "FallbackProvider_Complete f req w =
           (Inr (r\<lparr>resp_Model := resp_Model r @ '' ('' @ p_GetName p @ '')''\<rparr>), w')"
proof -
  from loop_after_prefix[OF assms(2)] obtain le' where
    "Complete_loop (FallbackProvider_GetName f) (ps @ p # qs) req None w =
       Complete_loop (FallbackProvider_GetName f) (p # qs) req le' (world_after ps req w)"
    by blast
  with assms(1) show ?thesis
    unfolding FallbackProvider_Complete_def
    by (simp only: loop_success_head[OF assms(3)])
qed

theorem fallback_short_circuit_witness:
  "FallbackProvider_Complete
     \<lparr>providers = [stub_provider ''A'' True (Inl rate_err), stub_provider ''U'' False (Inr ok_response),
                    stub_provider ''B'' True (Inr ok_response), stub_provider ''C'' True (Inr ok_response)],
      timeout = 30\<rparr> empty_request [] =
   (Inr (ok_response\<lparr>resp_Model := ''m (B)''\<rparr>),
    [Probed ''A'', Completed ''A'', Probed ''U'', Probed ''B'', Completed ''B''])"
proof -
  let ?ps = "[stub_provider ''A'' True (Inl rate_err), stub_provider ''U'' False (Inr ok_response)]"
  let ?f = "\<lparr>providers = ?ps @ stub_provider ''B'' True (Inr ok_response) # [stub_provider ''C'' True (Inr ok_response)],
             timeout = 30\<rparr>"
  have h0: "providers ?f = ?ps @ stub_provider ''B'' True (Inr ok_response) # [stub_provider ''C'' True (Inr ok_response)]"
    by simp
  have h1: "none_succeeds ?ps empty_request []"
    by (simp add: stub_defs)
  have h2: "attempt (stub_provider ''B'' True (Inr ok_response)) empty_request (world_after ?ps empty_request []) =
     (Succeeded ok_response, [Probed ''A'', Completed ''A'', Probed ''U'', Probed ''B'', Completed ''B''])"
    by (simp add: stub_defs)
  from fallback_short_circuit[OF h0 h1 h2]
  show ?thesis by (simp add: stub_defs)
qed

text \<open>
  C7.  Let the providers before \<open>p\<close> each be unavailable or fail, and let \<open>p\<close> fail
  with error \<open>e\<close>.  If \<open>e\<close> is a provider error of type auth, quota exceeded or rate
  limit, the loop goes on with the providers after \<open>p\<close>, keeping \<open>e\<close> as the last
  error.  For any other error it goes on in the same way when \<open>p\<close> is not the last
  provider, and returns \<open>e\<close> itself when it is.  When the last provider is passed
  because it is unavailable or fails with one of the three types, the loop has visited
  every provider and the result is the error \<open>all providers failed\<close>, which carries
  the name of the fallback set and wraps the last error.  With no provider at all the
  result is the error \<open>no providers configured\<close>.
\<close>

theorem fallback_error_policy:
  "(providers f = ps @ p # qs \<and> none_succeeds ps req w \<and>
      attempt p req (world_after ps req w) = (Failed e, w') \<and>
      error_type_in fallback_types e \<longrightarrow>
      FallbackProvider_Complete f req w =
        Complete_loop (FallbackProvider_GetName f) qs req (Some e) w') \<and>
   (providers f = ps @ p # qs \<and> none_succeeds ps req w \<and>
      attempt p req (world_after ps req w) = (Failed e, w') \<and>
      \<not> error_type_in fallback_types e \<longrightarrow>
      FallbackProvider_Complete f req w =
        (if qs \<noteq> [] then Complete_loop (FallbackProvider_GetName f) qs req (Some e) w'
         else (Inl e, w'))) \<and>
   (providers f = ps @ [p] \<and> none_succeeds ps req w \<and>
      attempt p req (world_after ps req w) = (oc, w') \<and>
      (oc = Unavailable \<or> (\<exists>e'. oc = Failed e' \<and> error_type_in fallback_types e')) \<longrightarrow>
      FallbackProvider_Complete f req w =
        (Inl (ProviderError (FallbackProvider_GetName f) ErrorTypeServerError
               ''all providers failed'' (attempt_error p oc)), w')) \<and>
   (providers f = [] \<longrightarrow>
      FallbackProvider_Complete f req w =
        (Inl (ProviderError ''fallback-empty'' ErrorTypeServerError
               ''no providers configured'' None), w))"
proof (intro conjI impI)
  assume h: "providers f = ps @ p # qs \<and> none_succeeds ps req w \<and>
      attempt p req (world_after ps req w) = (Failed e, w') \<and> error_type_in fallback_types e"
  from loop_after_prefix[of ps req w] h obtain le' where
    "Complete_loop (FallbackProvider_GetName f) (ps @ p # qs) req None w =
       Complete_loop (FallbackProvider_GetName f) (p # qs) req le' (world_after ps req w)"
    by blast
  moreover from h have "is_fallback_error e" by (simp add: is_fallback_error_iff)
  moreover from h have "attempt p req (world_after ps req w) = (Failed e, w')" by simp
  note loop_fail_head[OF this]
  ultimately show "FallbackProvider_Complete f req w =
        Complete_loop (FallbackProvider_GetName f) qs req (Some e) w'"
    using h unfolding FallbackProvider_Complete_def by simp
next
  assume h: "providers f = ps @ p # qs \<and> none_succeeds ps req w \<and>
      attempt p req (world_after ps req w) = (Failed e, w') \<and> \<not> error_type_in fallback_types e"
  from loop_after_prefix[of ps req w] h obtain le' where
    "Complete_loop (FallbackProvider_GetName f) (ps @ p # qs) req None w =
       Complete_loop (FallbackProvider_GetName f) (p # qs) req le' (world_after ps req w)"
    by blast
  moreover from h have "\<not> is_fallback_error e" by (simp add: is_fallback_error_iff)
  moreover from h have "attempt p req (world_after ps req w) = (Failed e, w')" by simp
  note loop_fail_head[OF this]
  ultimately show "FallbackProvider_Complete f req w =
        (if qs \<noteq> [] then Complete_loop (FallbackProvider_GetName f) qs req (Some e) w'
         else (Inl e, w'))"
    using h unfolding FallbackProvider_Complete_def by simp
next
  assume h: "providers f = ps @ [p] \<and> none_succeeds ps req w \<and>
      attempt p req (world_after ps req w) = (oc, w') \<and>
      (oc = Unavailable \<or> (\<exists>e'. oc = Failed e' \<and> error_type_in fallback_types e'))"
  from loop_after_prefix[of ps req w] h obtain le' where
    pre: "Complete_loop (FallbackProvider_GetName f) (ps @ [p]) req None w =
       Complete_loop (FallbackProvider_GetName f) [p] req le' (world_after ps req w)"
    by blast
  from h consider (u) "oc = Unavailable" | (e) e' where "oc = Failed e'" "is_fallback_error e'"
    by (auto simp: is_fallback_error_iff)
  then have "Complete_loop (FallbackProvider_GetName f) [p] req le' (world_after ps req w) =
     (Inl (ProviderError (FallbackProvider_GetName f) ErrorTypeServerError
               ''all providers failed'' (attempt_error p oc)), w')"
  proof cases
    case u
    with h have "attempt p req (world_after ps req w) = (Unavailable, w')" by simp
    from loop_unavailable_head[OF this] u show ?thesis by simp
  next
    case e
    with h have "attempt p req (world_after ps req w) = (Failed e', w')" by simp
    from loop_fail_head[OF this] e show ?thesis by simp
  qed
  with pre h show "FallbackProvider_Complete f req w =
        (Inl (ProviderError (FallbackProvider_GetName f) ErrorTypeServerError
               ''all providers failed'' (attempt_error p oc)), w')"
    unfolding FallbackProvider_Complete_def by simp
next
  assume "providers f = []"
  then show "FallbackProvider_Complete f req w =
        (Inl (ProviderError ''fallback-empty'' ErrorTypeServerError
               ''no providers configured'' None), w)"
    unfolding FallbackProvider_Complete_def FallbackProvider_GetName_def by simp
qed

theorem fallback_error_policy_witness:
  "FallbackProvider_Complete
     \<lparr>providers = [stub_provider ''A'' True (Inl rate_err), stub_provider ''B'' True (Inr ok_response)],
      timeout = 30\<rparr> empty_request [] =
     (Inr (ok_response\<lparr>resp_Model := ''m (B)''\<rparr>),
      [Probed ''A'', Completed ''A'', Probed ''B'', Completed ''B'']) \<and>
   FallbackProvider_Complete
     \<lparr>providers = [stub_provider ''S'' True (Inl server_err), stub_provider ''B'' True (Inr ok_response)],
      timeout = 30\<rparr> empty_request [] =
     (Inr (ok_response\<lparr>resp_Model := ''m (B)''\<rparr>),
      [Probed ''S'', Completed ''S'', Probed ''B'', Completed ''B'']) \<and>
   FallbackProvider_Complete
     \<lparr>providers = [stub_provider ''A'' True (Inl rate_err), stub_provider ''S'' True (Inl server_err)],
      timeout = 30\<rparr> empty_request [] =
     (Inl server_err, [Probed ''A'', Completed ''A'', Probed ''S'', Completed ''S'']) \<and>
   FallbackProvider_Complete
     \<lparr>providers = [stub_provider ''A'' True (Inl rate_err), stub_provider ''B'' True (Inl auth_err)],
      timeout = 30\<rparr> empty_request [] =
     (Inl (ProviderError ''fallback[[A B]]'' ErrorTypeServerError ''all providers failed'' (Some auth_err)),
      [Probed ''A'', Completed ''A'', Probed ''B'', Completed ''B'']) \<and>
   FallbackProvider_Complete
     \<lparr>providers = [stub_provider ''A'' True (Inl rate_err), stub_provider ''U'' False (Inr ok_response)],
      timeout = 30\<rparr> empty_request [] =
     (Inl (ProviderError ''fallback[[A U]]'' ErrorTypeServerError ''all providers failed''
            (Some (ProviderError ''U'' ErrorTypeNetwork ''provider not available'' None))),
      [Probed ''A'', Completed ''A'', Probed ''U'']) \<and>
   FallbackProvider_Complete \<lparr>providers = [], timeout = 30\<rparr> empty_request ([] :: event list) =
     (Inl (ProviderError ''fallback-empty'' ErrorTypeServerError ''no providers configured'' None), [])"
proof -
  let ?A = "stub_provider ''A'' True (Inl rate_err)"
  let ?B = "stub_provider ''B'' True (Inr ok_response)"
  let ?S = "stub_provider ''S'' True (Inl server_err)"
  let ?Bf = "stub_provider ''B'' True (Inl auth_err)"
  let ?U = "stub_provider ''U'' False (Inr ok_response)"
  have t: "error_type_in fallback_types rate_err" "\<not> error_type_in fallback_types server_err"
    "error_type_in fallback_types auth_err"
    by (simp_all add: rate_err_def server_err_def auth_err_def fallback_types_def
          ErrorTypeAuth_def ErrorTypeQuotaExceed_def ErrorTypeRateLimit_def ErrorTypeServerError_def)
  have n0: "none_succeeds [] empty_request ([] :: event list)" by (simp add: stub_defs)
  have nA: "none_succeeds [?A] empty_request []" by (simp add: stub_defs)
  have aA: "attempt ?A empty_request (world_after [] empty_request []) = (Failed rate_err, [Probed ''A'', Completed ''A''])"
    by (simp add: stub_defs)
  have aS: "attempt ?S empty_request (world_after [] empty_request []) = (Failed server_err, [Probed ''S'', Completed ''S''])"
    by (simp add: stub_defs)
  have aAS: "attempt ?S empty_request (world_after [?A] empty_request []) =
      (Failed server_err, [Probed ''A'', Completed ''A'', Probed ''S'', Completed ''S''])"
    by (simp add: stub_defs)
  have aAB: "attempt ?Bf empty_request (world_after [?A] empty_request []) =
      (Failed auth_err, [Probed ''A'', Completed ''A'', Probed ''B'', Completed ''B''])"
    by (simp add: stub_defs)
  have aAU: "attempt ?U empty_request (world_after [?A] empty_request []) =
      (Unavailable, [Probed ''A'', Completed ''A'', Probed ''U''])"
    by (simp add: stub_defs)
  have c1: "FallbackProvider_Complete \<lparr>providers = [?A, ?B], timeout = 30\<rparr> empty_request [] =
     (Inr (ok_response\<lparr>resp_Model := ''m (B)''\<rparr>), [Probed ''A'', Completed ''A'', Probed ''B'', Completed ''B''])"
    using fallback_error_policy[of "\<lparr>providers = [?A, ?B], timeout = 30\<rparr>" "[]" ?A "[?B]" empty_request "[]"
            rate_err "[Probed ''A'', Completed ''A'']"] n0 aA t
    by (simp add: stub_provider_def ok_response_def)
  have c2: "FallbackProvider_Complete \<lparr>providers = [?S, ?B], timeout = 30\<rparr> empty_request [] =
     (Inr (ok_response\<lparr>resp_Model := ''m (B)''\<rparr>), [Probed ''S'', Completed ''S'', Probed ''B'', Completed ''B''])"
    using fallback_error_policy[of "\<lparr>providers = [?S, ?B], timeout = 30\<rparr>" "[]" ?S "[?B]" empty_request "[]"
            server_err "[Probed ''S'', Completed ''S'']"] n0 aS t
    by (simp add: stub_provider_def ok_response_def)
  have c3: "FallbackProvider_Complete \<lparr>providers = [?A, ?S], timeout = 30\<rparr> empty_request [] =
     (Inl server_err, [Probed ''A'', Completed ''A'', Probed ''S'', Completed ''S''])"
    using fallback_error_policy[of "\<lparr>providers = [?A, ?S], timeout = 30\<rparr>" "[?A]" ?S "[]" empty_request "[]"
            server_err "[Probed ''A'', Completed ''A'', Probed ''S'', Completed ''S'']"] nA aAS t
    by simp
  have c4: "FallbackProvider_Complete \<lparr>providers = [?A, ?Bf], timeout = 30\<rparr> empty_request [] =
     (Inl (ProviderError ''fallback[[A B]]'' ErrorTypeServerError ''all providers failed'' (Some auth_err)),
      [Probed ''A'', Completed ''A'', Probed ''B'', Completed ''B''])"
    using fallback_error_policy[of "\<lparr>providers = [?A, ?Bf], timeout = 30\<rparr>" "[?A]" ?Bf _ empty_request "[]"
            _ "[Probed ''A'', Completed ''A'', Probed ''B'', Completed ''B'']" "Failed auth_err"] nA aAB t
    by (simp add: FallbackProvider_GetName_def stub_provider_def)
  have c5: "FallbackProvider_Complete \<lparr>providers = [?A, ?U], timeout = 30\<rparr> empty_request [] =
     (Inl (ProviderError ''fallback[[A U]]'' ErrorTypeServerError ''all providers failed''
            (Some (ProviderError ''U'' ErrorTypeNetwork ''provider not available'' None))),
      [Probed ''A'', Completed ''A'', Probed ''U''])"
    using fallback_error_policy[of "\<lparr>providers = [?A, ?U], timeout = 30\<rparr>" "[?A]" ?U _ empty_request "[]"
            _ "[Probed ''A'', Completed ''A'', Probed ''U'']" "Unavailable"] nA aAU
    by (simp add: FallbackProvider_GetName_def stub_provider_def)
  have c6: "FallbackProvider_Complete \<lparr>providers = [], timeout = 30\<rparr> empty_request ([] :: event list) =
     (Inl (ProviderError ''fallback-empty'' ErrorTypeServerError ''no providers configured'' None), [])"
    using fallback_error_policy[of "\<lparr>providers = [], timeout = 30\<rparr>"] by simp
  from c1 c2 c3 c4 c5 c6 show ?thesis by blast
qed

section \<open>The orchestration loop\<close>

subsection \<open>Counting search attempts\<close>

lemma count_inner:
  "fold (\<lambda>toolCall count. if fc_Name (tc_Function toolCall) = ''kbase'' then count + 1 else count) tcs (c::int) =
     c + int (length (filter (\<lambda>tc. fc_Name (tc_Function tc) = ''kbase'') tcs))"
  by (induction tcs arbitrary: c) auto

lemma count_outer:
  "fold (\<lambda>msg count.
             if Role msg = ''assistant''
             then fold (\<lambda>toolCall count. if fc_Name (tc_Function toolCall) = ''kbase'' then count + 1 else count)
                       (ToolCalls msg) count
             else count) messages (c::int) = c + int (length (search_calls messages))"
  by (induction messages arbitrary: c) (auto simp: count_inner search_calls_def search_tool_name_def)

lemma countSearchAttempts_eq: "countSearchAttempts messages = int (length (search_calls messages))"
  unfolding countSearchAttempts_def by (simp add: count_outer)

lemma search_calls_append: "search_calls (xs @ ys) = search_calls xs @ search_calls ys"
  by (simp add: search_calls_def)

lemma search_calls_tool_messages:
  "\<forall>m \<in> set ms. Role m = ''tool'' \<Longrightarrow> search_calls ms = []"
  by (induction ms) (auto simp: search_calls_def)

subsection \<open>What one round changes\<close>

lemma executeToolCall_agent:
  "executeToolCall a tc w = (res, a', w') \<Longrightarrow> \<exists>tr. a' = a\<lparr>toolRegistry := tr\<rparr>"
  unfolding executeToolCall_def Let_def
  by (auto split: sum.splits prod.splits if_splits intro: exI[of _ "toolRegistry a"])

lemma execute_tool_calls_agent:
  "execute_tool_calls a opts es n i tcs msgs w = (msgs', a', w') \<Longrightarrow> \<exists>tr. a' = a\<lparr>toolRegistry := tr\<rparr>"
proof (induction tcs arbitrary: a i msgs w)
  case Nil
  then show ?case by (auto intro: exI[of _ "toolRegistry a"])
next
  case (Cons tc tcs)
  obtain res a1 w2 where e: "executeToolCall a tc
        (if es then emit_status a opts (''Searching '' @ fmt_d (int i + 1) @ ''/'' @ fmt_d (int n) @ ''...'') w else w)
        = (res, a1, w2)"
    by (metis prod_cases3)
  from executeToolCall_agent[OF e] obtain tr1 where a1: "a1 = a\<lparr>toolRegistry := tr1\<rparr>" by blast
  from Cons.prems e obtain ms where
    "execute_tool_calls a1 opts es n (Suc i) tcs ms w2 = (msgs', a', w')"
    by (auto simp: Let_def split: if_splits)
  from Cons.IH[OF this] obtain tr where "a' = a1\<lparr>toolRegistry := tr\<rparr>" by blast
  with a1 show ?case by auto
qed

lemma execute_tool_calls_extends:
  "execute_tool_calls a opts es n i tcs msgs w = (msgs', a', w') \<Longrightarrow>
     \<exists>extra. msgs' = msgs @ extra \<and> length extra = length tcs \<and> (\<forall>m \<in> set extra. Role m = ''tool'')"
proof (induction tcs arbitrary: a i msgs w)
  case Nil
  then show ?case by simp
next
  case (Cons tc tcs)
  then show ?case
    by (auto simp: Let_def split: prod.splits) (fastforce)
qed

lemma build_finalReq_extends:
  assumes "build_finalReq a opts depth es (m0 @ x # xs) w = (req, m', w')"
  shows "\<exists>ys. m' = m0 @ ys \<and> ys \<noteq> [] \<and> search_calls ys = search_calls (x # xs) \<and> req_Messages req = m'"
proof -
  have bl: "butlast (m0 @ x # xs) = m0 @ butlast (x # xs)"
    by (simp add: butlast_append)
  have sc: "search_calls (butlast (x # xs) @ [(last (x # xs))\<lparr>Content := c\<rparr>]) = search_calls (x # xs)" for c
  proof -
    have "x # xs = butlast (x # xs) @ [last (x # xs)]" by simp
    then have "search_calls (x # xs) = search_calls (butlast (x # xs)) @ search_calls [last (x # xs)]"
      by (metis search_calls_append)
    then show ?thesis
      by (simp add: search_calls_append) (simp add: search_calls_def)
  qed
  have fs: "search_calls (ys @ [forceSearchMsg k]) = search_calls ys" for ys k
    by (simp add: search_calls_append) (simp add: search_calls_def forceSearchMsg_def)
  have fs': "search_calls (x # xs @ [forceSearchMsg k]) = search_calls (x # xs)" for k
    using fs[of "x # xs" k] by simp
  from assms show ?thesis
    unfolding build_finalReq_def Let_def
    by (auto split: if_splits prod.splits simp: bl sc fs' simp del: butlast.simps last.simps)
qed

lemma build_finalReq_no_tools:
  assumes "build_finalReq a opts depth es ms w = (req, m', w')" "maxDepth - 1 \<le> depth"
  shows "req_Tools req = [] \<and> req_ToolChoice req = []"
  using assms unfolding build_finalReq_def Let_def by (auto split: if_splits)

lemma prepare_round_facts:
  assumes "prepare_round a r ms opts depth es w = (req, ms', a', w')"
  shows "\<exists>tr. a' = a\<lparr>toolRegistry := tr\<rparr>"
    and "\<exists>extra. ms' = ms @ extra \<and>
           search_calls extra = filter (\<lambda>tc. fc_Name (tc_Function tc) = search_tool_name) (resp_ToolCalls r)"
    and "req_Messages req = ms'"
    and "maxDepth - 1 \<le> depth \<Longrightarrow> req_Tools req = [] \<and> req_ToolChoice req = []"
proof -
  let ?content = "if resp_Content r = [] then ''I'' @ apos @ ''ll use some tools to help answer your question.''
                  else resp_Content r"
  let ?am = "\<lparr>Role = ''assistant'', Content = ?content, ToolCalls = resp_ToolCalls r, ToolCallID = []\<rparr>"
  obtain ms2 a1 w1 where e: "execute_tool_calls a opts es (length (resp_ToolCalls r)) 0 (resp_ToolCalls r)
       (ms @ [?am]) w = (ms2, a1, w1)"
    by (metis prod_cases3)
  from assms e have b: "build_finalReq a1 opts depth es ms2
       (if es then emit_status a1 opts ''Processing results...'' w1 else w1) = (req, ms', w')"
    and a': "a' = a1"
    unfolding prepare_round_def Let_def by (auto split: prod.splits)
  from execute_tool_calls_agent[OF e] a' show "\<exists>tr. a' = a\<lparr>toolRegistry := tr\<rparr>" by simp
  from execute_tool_calls_extends[OF e] obtain extra where
    x: "ms2 = (ms @ [?am]) @ extra" "\<forall>m \<in> set extra. Role m = ''tool''" by blast
  then have ms2: "ms2 = ms @ ?am # extra" by simp
  from build_finalReq_extends[OF b[unfolded ms2]] obtain ys where
    ys: "ms' = ms @ ys" "search_calls ys = search_calls (?am # extra)" "req_Messages req = ms'"
    by blast
  have "search_calls (?am # extra) = search_calls [?am] @ search_calls extra"
    using search_calls_append[of "[?am]" extra] by simp
  also have "\<dots> = filter (\<lambda>tc. fc_Name (tc_Function tc) = search_tool_name) (resp_ToolCalls r)"
    using search_calls_tool_messages[OF x(2)] by (simp add: search_calls_def)
  finally show "\<exists>extra. ms' = ms @ extra \<and>
           search_calls extra = filter (\<lambda>tc. fc_Name (tc_Function tc) = search_tool_name) (resp_ToolCalls r)"
    using ys by auto
  from ys show "req_Messages req = ms'" by simp
  show "maxDepth - 1 \<le> depth \<Longrightarrow> req_Tools req = [] \<and> req_ToolChoice req = []"
    using build_finalReq_no_tools[OF b] by simp
qed

lemma tool_round_facts:
  assumes "tool_round a r ms opts depth es w = (res, ms', a', w')"
  shows "\<exists>tr. a' = a\<lparr>toolRegistry := tr\<rparr>"
    and "\<exists>extra. ms' = ms @ extra \<and>
           search_calls extra = filter (\<lambda>tc. fc_Name (tc_Function tc) = search_tool_name) (resp_ToolCalls r)"
    and "\<exists>req w0. fst (p_Complete (llmProvider a) req w0) = res"
proof -
  obtain req ms3 a1 w3 where p: "prepare_round a r ms opts depth es w = (req, ms3, a1, w3)"
    by (metis prod_cases4)
  from assms p have c: "fst (p_Complete (llmProvider a1) req w3) = res" and eq: "ms' = ms3" "a' = a1"
    unfolding tool_round_def Let_def by (auto split: prod.splits)
  from prepare_round_facts(1)[OF p] eq show t: "\<exists>tr. a' = a\<lparr>toolRegistry := tr\<rparr>" by simp
  from prepare_round_facts(2)[OF p] eq show "\<exists>extra. ms' = ms @ extra \<and>
           search_calls extra = filter (\<lambda>tc. fc_Name (tc_Function tc) = search_tool_name) (resp_ToolCalls r)"
    by simp
  from t eq have "llmProvider a1 = llmProvider a" by auto
  with c show "\<exists>req w0. fst (p_Complete (llmProvider a) req w0) = res" by metis
qed

lemmas agent_defs = stub_agent_def stub_registry_def stub_runtime_def stub_tool_def stub_result_def
  stub_opts_def tool_call_def search_request_def user_message_def no_usage_def kbase_definition_def
  stub_provider_def scripted_provider_def completions_so_far_def

lemmas loop_defs = tool_round_def prepare_round_def build_finalReq_def executeToolCall_def ExecuteTool_def
  recordExecution_def countSearchAttempts_def recent_tool_results_def provider_failed_def
  retry_response_def force_complete_response_def emit_status_def maxDepth_def minSearches_def
  forceSearchMsg_def

subsection \<open>From one invocation to the next\<close>

text \<open>
  \<open>handleToolCallsWithDepthLimitStreaming_rel callee caller\<close> is the relation between
  the arguments of an invocation and those of the recursive call it makes.
\<close>

lemma loop_rel_step:
  assumes "handleToolCallsWithDepthLimitStreaming_rel (a2, r2, ms2, o2, d2, es2, w2) (a1, r1, ms1, o1, d1, es1, w1)"
  shows "\<exists>w'. tool_round a1 r1 ms1 o1 d1 es1 w1 = (Inr r2, ms2, a2, w') \<and>
           d1 < maxDepth - 1 \<and> 0 < length (resp_ToolCalls r2) \<and>
           d2 = d1 + 1 \<and> o2 = o1 \<and> es2 = es1 \<and>
           w2 = (if es1 then emit_status a2 o1 (''Continuing search (depth '' @ fmt_d (d1 + 1) @ '')...'') w'
                 else w')"
  using assms
  by (cases rule: handleToolCallsWithDepthLimitStreaming_rel.cases) (auto simp: prod_eq_iff)

lemma loop_rel_same_result:
  assumes "handleToolCallsWithDepthLimitStreaming_rel (a2, r2, ms2, o2, d2, es2, w2) (a1, r1, ms1, o1, d1, es1, w1)"
  shows "handleToolCallsWithDepthLimitStreaming a1 r1 ms1 o1 d1 es1 w1 =
         handleToolCallsWithDepthLimitStreaming a2 r2 ms2 o2 d2 es2 w2"
proof -
  from loop_rel_step[OF assms] obtain w' where
    t: "tool_round a1 r1 ms1 o1 d1 es1 w1 = (Inr r2, ms2, a2, w')"
    and c: "d1 < maxDepth - 1" "0 < length (resp_ToolCalls r2)"
    and e: "d2 = d1 + 1" "o2 = o1" "es2 = es1"
           "w2 = (if es1 then emit_status a2 o1 (''Continuing search (depth '' @ fmt_d (d1 + 1) @ '')...'') w'
                 else w')"
    by (elim exE conjE)
  from c have "\<not> maxDepth \<le> d1" by simp
  with t c e show ?thesis
    by (simp add: handleToolCallsWithDepthLimitStreaming.simps[of a1 r1 ms1 o1 d1 es1 w1])
qed

lemma loop_rel_messages:
  assumes "handleToolCallsWithDepthLimitStreaming_rel (a2, r2, ms2, o2, d2, es2, w2) (a1, r1, ms1, o1, d1, es1, w1)"
  shows "prefix ms1 ms2 \<and> d2 = d1 + 1 \<and>
         countSearchAttempts ms2 =
           countSearchAttempts ms1 +
           int (length (filter (\<lambda>tc. fc_Name (tc_Function tc) = search_tool_name) (resp_ToolCalls r1)))"
proof -
  from loop_rel_step[OF assms] obtain w' where
    t: "tool_round a1 r1 ms1 o1 d1 es1 w1 = (Inr r2, ms2, a2, w')" and d: "d2 = d1 + 1"
    by (elim exE conjE)
  from tool_round_facts(2)[OF t] obtain extra where
    x: "ms2 = ms1 @ extra"
       "search_calls extra = filter (\<lambda>tc. fc_Name (tc_Function tc) = search_tool_name) (resp_ToolCalls r1)"
    by (elim exE conjE)
  have "prefix ms1 ms2" using x(1) by simp
  moreover have "countSearchAttempts ms2 =
           countSearchAttempts ms1 +
           int (length (filter (\<lambda>tc. fc_Name (tc_Function tc) = search_tool_name) (resp_ToolCalls r1)))"
    unfolding countSearchAttempts_eq x(1) search_calls_append x(2) by simp
  ultimately show ?thesis using d by simp
qed

lemma loop_rel_chain:
  assumes "rtranclp handleToolCallsWithDepthLimitStreaming_rel x y"
  shows "prefix (fst (snd (snd y))) (fst (snd (snd x))) \<and>
         countSearchAttempts (fst (snd (snd y))) \<le> countSearchAttempts (fst (snd (snd x))) \<and>
         fst (snd (snd (snd (snd y)))) \<le> fst (snd (snd (snd (snd x))))"
  using assms
proof (induction rule: rtranclp_induct)
  case base
  then show ?case by simp
next
  case (step y z)
  obtain a2 r2 ms2 o2 d2 es2 w2 where y: "y = (a2, r2, ms2, o2, d2, es2, w2)" by (cases y) auto
  obtain a1 r1 ms1 o1 d1 es1 w1 where z: "z = (a1, r1, ms1, o1, d1, es1, w1)" by (cases z) auto
  from step.hyps(2) y z loop_rel_messages[of a2 r2 ms2 o2 d2 es2 w2 a1 r1 ms1 o1 d1 es1 w1]
  have "prefix ms1 ms2" "d1 \<le> d2" "countSearchAttempts ms1 \<le> countSearchAttempts ms2"
    by auto
  with step.IH y z show ?case
    by (auto intro: prefix_order.trans)
qed


lemma loop_rel_chain_result:
  assumes "rtranclp handleToolCallsWithDepthLimitStreaming_rel x y"
  shows "(case y of (a1, r1, ms1, o1, d1, es1, w1) \<Rightarrow>
            handleToolCallsWithDepthLimitStreaming a1 r1 ms1 o1 d1 es1 w1) =
         (case x of (a2, r2, ms2, o2, d2, es2, w2) \<Rightarrow>
            handleToolCallsWithDepthLimitStreaming a2 r2 ms2 o2 d2 es2 w2)"
  using assms
proof (induction rule: rtranclp_induct)
  case base
  then show ?case by simp
next
  case (step y z)
  obtain a2 r2 ms2 o2 d2 es2 w2 where y: "y = (a2, r2, ms2, o2, d2, es2, w2)" by (cases y) auto
  obtain a1 r1 ms1 o1 d1 es1 w1 where z: "z = (a1, r1, ms1, o1, d1, es1, w1)" by (cases z) auto
  from step.hyps(2) y z loop_rel_same_result[of a2 r2 ms2 o2 d2 es2 w2 a1 r1 ms1 o1 d1 es1 w1]
  have "handleToolCallsWithDepthLimitStreaming a1 r1 ms1 o1 d1 es1 w1 =
        handleToolCallsWithDepthLimitStreaming a2 r2 ms2 o2 d2 es2 w2" by simp
  with step.IH y z show ?case by simp
qed


lemma first_round_answer: "fst first_round = Inr search_request"
  unfolding first_round_def by (simp add: agent_defs loop_defs Let_def)

lemma first_round_rel:
  "handleToolCallsWithDepthLimitStreaming_rel
     (fst (snd (snd first_round)), search_request, fst (snd first_round), stub_opts, 0 + 1, False,
      snd (snd (snd first_round)))
     (stub_agent (stub_provider ''P'' True (Inr search_request)), search_request, [user_message],
      stub_opts, 0, False, [])"
proof -
  have c: "0 < length (resp_ToolCalls search_request) \<and> (0::int) < maxDepth - 1"
    by (simp add: search_request_def maxDepth_def)
  have m: "\<not> maxDepth \<le> (0::int)" by (simp add: maxDepth_def)
  have p: "(fst first_round, snd first_round) =
             tool_round (stub_agent (stub_provider ''P'' True (Inr search_request))) search_request
               [user_message] stub_opts 0 False []"
    by (simp add: first_round_def)
  have q1: "(fst (snd first_round), snd (snd first_round)) = snd first_round" by simp
  have q2: "(fst (snd (snd first_round)), snd (snd (snd first_round))) = snd (snd first_round)" by simp
  from handleToolCallsWithDepthLimitStreaming_rel.intros[OF m p first_round_answer q1 q2 c]
  show ?thesis by simp
qed

text \<open>
  C3.  \<open>countSearchAttempts\<close> is the number of tool calls, in assistant messages, whose
  function name is \<open>kbase\<close>, and it does not decrease when messages are appended.
  The list a round hands on extends the list it received, its count being the old
  count plus the number of \<open>kbase\<close> calls of the response the round executed.  So
  for every recursive call that \<open>handleToolCallsWithDepthLimitStreaming\<close> makes, the
  callee's depth is the caller's plus one, the callee's messages extend the caller's,
  the callee's count is the caller's plus the number of \<open>kbase\<close> calls just executed,
  and the caller returns what the callee returns; along any chain of recursive calls
  the count does not decrease.
\<close>

theorem search_count_monotone:
  "countSearchAttempts messages = int (length (search_calls messages)) \<and>
   countSearchAttempts messages \<le> countSearchAttempts (messages @ later) \<and>
   (tool_round a initialResp messages opts depth enableStreaming w = (res, messages', a', w') \<longrightarrow>
      prefix messages messages' \<and>
      countSearchAttempts messages' =
        countSearchAttempts messages +
        int (length (filter (\<lambda>tc. fc_Name (tc_Function tc) = search_tool_name) (resp_ToolCalls initialResp))) \<and>
      countSearchAttempts messages \<le> countSearchAttempts messages') \<and>
   (handleToolCallsWithDepthLimitStreaming_rel
      (a2, r2, ms2, o2, d2, es2, w2) (a1, r1, ms1, o1, d1, es1, w1) \<longrightarrow>
      handleToolCallsWithDepthLimitStreaming a1 r1 ms1 o1 d1 es1 w1 =
        handleToolCallsWithDepthLimitStreaming a2 r2 ms2 o2 d2 es2 w2 \<and>
      d2 = d1 + 1 \<and> prefix ms1 ms2 \<and>
      countSearchAttempts ms2 =
        countSearchAttempts ms1 +
        int (length (filter (\<lambda>tc. fc_Name (tc_Function tc) = search_tool_name) (resp_ToolCalls r1))) \<and>
      countSearchAttempts ms1 \<le> countSearchAttempts ms2) \<and>
   (rtranclp handleToolCallsWithDepthLimitStreaming_rel
      (a2, r2, ms2, o2, d2, es2, w2) (a1, r1, ms1, o1, d1, es1, w1) \<longrightarrow>
      handleToolCallsWithDepthLimitStreaming a1 r1 ms1 o1 d1 es1 w1 =
        handleToolCallsWithDepthLimitStreaming a2 r2 ms2 o2 d2 es2 w2 \<and>
      d1 \<le> d2 \<and> prefix ms1 ms2 \<and> countSearchAttempts ms1 \<le> countSearchAttempts ms2)"
proof (intro conjI impI)
  show "countSearchAttempts messages = int (length (search_calls messages))"
    by (rule countSearchAttempts_eq)
  show "countSearchAttempts messages \<le> countSearchAttempts (messages @ later)"
    by (simp add: countSearchAttempts_eq search_calls_append)
next
  assume t: "tool_round a initialResp messages opts depth enableStreaming w = (res, messages', a', w')"
  from tool_round_facts(2)[OF t] obtain extra where
    x: "messages' = messages @ extra"
       "search_calls extra =
          filter (\<lambda>tc. fc_Name (tc_Function tc) = search_tool_name) (resp_ToolCalls initialResp)"
    by (elim exE conjE)
  from x(1) show "prefix messages messages'" by simp
  show c: "countSearchAttempts messages' =
        countSearchAttempts messages +
        int (length (filter (\<lambda>tc. fc_Name (tc_Function tc) = search_tool_name) (resp_ToolCalls initialResp)))"
    unfolding countSearchAttempts_eq x(1) search_calls_append x(2) by simp
  then show "countSearchAttempts messages \<le> countSearchAttempts messages'" by simp
next
  assume r: "handleToolCallsWithDepthLimitStreaming_rel
      (a2, r2, ms2, o2, d2, es2, w2) (a1, r1, ms1, o1, d1, es1, w1)"
  show "handleToolCallsWithDepthLimitStreaming a1 r1 ms1 o1 d1 es1 w1 =
        handleToolCallsWithDepthLimitStreaming a2 r2 ms2 o2 d2 es2 w2"
    by (rule loop_rel_same_result[OF r])
  from loop_rel_messages[OF r]
  show "d2 = d1 + 1" "prefix ms1 ms2"
    and c: "countSearchAttempts ms2 =
        countSearchAttempts ms1 +
        int (length (filter (\<lambda>tc. fc_Name (tc_Function tc) = search_tool_name) (resp_ToolCalls r1)))"
    by simp_all
  from c show "countSearchAttempts ms1 \<le> countSearchAttempts ms2" by simp
next
  assume r: "rtranclp handleToolCallsWithDepthLimitStreaming_rel
      (a2, r2, ms2, o2, d2, es2, w2) (a1, r1, ms1, o1, d1, es1, w1)"
  from loop_rel_chain[OF r]
  show "d1 \<le> d2" "prefix ms1 ms2" "countSearchAttempts ms1 \<le> countSearchAttempts ms2"
    by simp_all
  from loop_rel_chain_result[OF r]
  show "handleToolCallsWithDepthLimitStreaming a1 r1 ms1 o1 d1 es1 w1 =
        handleToolCallsWithDepthLimitStreaming a2 r2 ms2 o2 d2 es2 w2"
    by simp
qed

theorem search_count_monotone_witness:
  "handleToolCallsWithDepthLimitStreaming_rel
     (fst (snd (snd first_round)), search_request, fst (snd first_round), stub_opts, 0 + 1, False,
      snd (snd (snd first_round)))
     (stub_agent (stub_provider ''P'' True (Inr search_request)), search_request, [user_message],
      stub_opts, 0, False, []) \<and>
   countSearchAttempts [user_message] = 0 \<and>
   prefix [user_message] (fst (snd first_round)) \<and>
   countSearchAttempts (fst (snd first_round)) = 1"
proof -
  let ?a = "stub_agent (stub_provider ''P'' True (Inr search_request))"
  have z: "search_calls [user_message] = []"
    by (simp add: search_calls_def user_message_def)
  have k: "filter (\<lambda>tc. fc_Name (tc_Function tc) = search_tool_name) (resp_ToolCalls search_request)
             = resp_ToolCalls search_request"
    by (simp add: search_request_def tool_call_def search_tool_name_def)
  have t: "tool_round ?a search_request [user_message] stub_opts 0 False [] =
             (fst first_round, fst (snd first_round), fst (snd (snd first_round)), snd (snd (snd first_round)))"
    by (simp add: first_round_def)
  note r = first_round_rel
  have rr: "rtranclp handleToolCallsWithDepthLimitStreaming_rel
     (fst (snd (snd first_round)), search_request, fst (snd first_round), stub_opts, 0 + 1, False,
      snd (snd (snd first_round)))
     (?a, search_request, [user_message], stub_opts, 0, False, [])"
    using r by (rule r_into_rtranclp)
  from search_count_monotone[of "[user_message]" "[]" ?a search_request stub_opts 0 False "[]"
        "fst first_round" "fst (snd first_round)" "fst (snd (snd first_round))" "snd (snd (snd first_round))"
        "fst (snd (snd first_round))" search_request "fst (snd first_round)" stub_opts "0 + 1" False
        "snd (snd (snd first_round))" ?a search_request "[user_message]" stub_opts 0 False "[]"]
       t r rr z k
  have "countSearchAttempts [user_message] = 0 \<and> prefix [user_message] (fst (snd first_round)) \<and>
        countSearchAttempts (fst (snd first_round)) = 1"
    by (simp add: search_request_def del: prefix_Cons Sublist.Cons_prefix_Cons)
  with r show ?thesis by blast
qed

subsection \<open>Termination and the final response\<close>

lemma exhaustive_search_message_nonempty: "exhaustive_search_message n \<noteq> []"
  by (simp add: exhaustive_search_message_def)

lemma force_complete_response_nonempty: "resp_Content (force_complete_response r n) \<noteq> []"
  by (simp add: force_complete_response_def Let_def exhaustive_search_message_nonempty)

lemma provider_failed_nonempty: "resp_Content (provider_failed ms d) \<noteq> []"
  by (simp add: provider_failed_def retry_response_def Let_def)

lemma within_budget:
  "0 < n \<Longrightarrow> maxDepth - depth \<le> int n \<Longrightarrow>
     handleToolCalls_within n a r ms opts depth es w =
       Some (handleToolCallsWithDepthLimitStreaming a r ms opts depth es w)"
proof (induction n arbitrary: a r ms depth w)
  case 0
  then show ?case by simp
next
  case (Suc n)
  show ?case
  proof (cases "depth \<ge> maxDepth")
    case True
    then show ?thesis
      by (simp add: handleToolCallsWithDepthLimitStreaming.simps)
  next
    case False
    obtain res ms' a' w' where t: "tool_round a r ms opts depth es w = (res, ms', a', w')"
      by (metis prod_cases4)
    show ?thesis
    proof (cases res)
      case (Inl err)
      with t False show ?thesis
        by (simp add: handleToolCallsWithDepthLimitStreaming.simps[of a r ms opts depth es w])
    next
      case (Inr finalResp)
      show ?thesis
      proof (cases "length (resp_ToolCalls finalResp) > 0 \<and> depth < maxDepth - 1")
        case True
        with Suc.prems have n: "0 < n" "maxDepth - (depth + 1) \<le> int n" by auto
        from Suc.IH[OF n] t Inr True False show ?thesis
          by (simp add: handleToolCallsWithDepthLimitStreaming.simps[of a r ms opts depth es w])
      next
        case no: False
        with t Inr False show ?thesis
          by (auto simp add: handleToolCallsWithDepthLimitStreaming.simps[of a r ms opts depth es w])
      qed
    qed
  qed
qed

lemma loop_result:
  "\<exists>x a' w'. handleToolCallsWithDepthLimitStreaming a r ms opts depth es w = (Inr x, a', w') \<and>
     (\<exists>tr. a' = a\<lparr>toolRegistry := tr\<rparr>) \<and>
     (x = force_complete_response r (countSearchAttempts ms) \<and> maxDepth \<le> depth \<or>
      (\<exists>ms' d err req w0. x = provider_failed ms' d \<and> fst (p_Complete (llmProvider a) req w0) = Inl err) \<or>
      (\<exists>req w0. fst (p_Complete (llmProvider a) req w0) = Inr x))"
proof (induction a r ms opts depth es w rule: handleToolCallsWithDepthLimitStreaming.induct)
  case (1 a r ms opts depth es w)
  show ?case
  proof (cases "depth \<ge> maxDepth")
    case True
    then show ?thesis
      by (simp add: handleToolCallsWithDepthLimitStreaming.simps[of a r ms opts depth es w])
         (rule exI[of _ "toolRegistry a"], simp)
  next
    case False
    obtain res ms' a' w' where t: "tool_round a r ms opts depth es w = (res, ms', a', w')"
      by (metis prod_cases4)
    from tool_round_facts(1)[OF t] obtain tr where a': "a' = a\<lparr>toolRegistry := tr\<rparr>" by blast
    from tool_round_facts(3)[OF t] obtain req w0 where c: "fst (p_Complete (llmProvider a) req w0) = res"
      by blast
    show ?thesis
    proof (cases res)
      case (Inl err)
      with t False have "handleToolCallsWithDepthLimitStreaming a r ms opts depth es w =
          (Inr (provider_failed ms' depth), a', w')"
        by (simp add: handleToolCallsWithDepthLimitStreaming.simps[of a r ms opts depth es w])
      with a' c Inl show ?thesis by blast
    next
      case (Inr finalResp)
      show ?thesis
      proof (cases "length (resp_ToolCalls finalResp) > 0 \<and> depth < maxDepth - 1")
        case True
        let ?w = "if es then emit_status a' opts (''Continuing search (depth '' @ fmt_d (depth + 1) @ '')...'') w' else w'"
        from "1.IH"[OF False t[symmetric] Inr refl refl True]
        obtain x a2 w2 where
          h: "handleToolCallsWithDepthLimitStreaming a' finalResp ms' opts (depth + 1) es ?w = (Inr x, a2, w2)"
             "\<exists>tr. a2 = a'\<lparr>toolRegistry := tr\<rparr>"
             "(x = force_complete_response finalResp (countSearchAttempts ms') \<and> maxDepth \<le> depth + 1 \<or>
               (\<exists>ms' d err req w0. x = provider_failed ms' d \<and> fst (p_Complete (llmProvider a') req w0) = Inl err) \<or>
               (\<exists>req w0. fst (p_Complete (llmProvider a') req w0) = Inr x))"
          by blast
        from True have nd: "\<not> maxDepth \<le> depth + 1" by simp
        from a' have lp: "llmProvider a' = llmProvider a" by simp
        from h(2) a' have "\<exists>tr. a2 = a\<lparr>toolRegistry := tr\<rparr>" by auto
        moreover from h(3) nd lp have "(\<exists>ms' d err req w0. x = provider_failed ms' d \<and> fst (p_Complete (llmProvider a) req w0) = Inl err) \<or>
               (\<exists>req w0. fst (p_Complete (llmProvider a) req w0) = Inr x)" by auto
        moreover from t Inr True False h(1)
        have "handleToolCallsWithDepthLimitStreaming a r ms opts depth es w = (Inr x, a2, w2)"
          by (simp add: handleToolCallsWithDepthLimitStreaming.simps[of a r ms opts depth es w])
        ultimately show ?thesis by blast
      next
        case no: False
        with t Inr False have "handleToolCallsWithDepthLimitStreaming a r ms opts depth es w = (Inr finalResp, a', w')"
          by (auto simp add: handleToolCallsWithDepthLimitStreaming.simps[of a r ms opts depth es w])
        with a' c Inr show ?thesis by blast
      qed
    qed
  qed
qed

lemma always_requesting:
  assumes "\<forall>req w0. fst (p_Complete (llmProvider a) req w0) = Inr r0" "depth < maxDepth"
  shows "fst (handleToolCallsWithDepthLimitStreaming a r ms opts depth es w) = Inr r0"
proof -
  from loop_result[of a r ms opts depth es w] obtain x a' w' where
    h: "handleToolCallsWithDepthLimitStreaming a r ms opts depth es w = (Inr x, a', w')"
       "x = force_complete_response r (countSearchAttempts ms) \<and> maxDepth \<le> depth \<or>
        (\<exists>ms' d err req w0. x = provider_failed ms' d \<and> fst (p_Complete (llmProvider a) req w0) = Inl err) \<or>
        (\<exists>req w0. fst (p_Complete (llmProvider a) req w0) = Inr x)"
    by blast
  from h(2) assms have "x = r0" by auto
  with h(1) show ?thesis by simp
qed

text \<open>
  Entered at a depth of at least 0, the loop returns, with a \<open>nil\<close> error, within
  \<open>maxDepth\<close> invocations.  The response it returns either has non-empty content
  (the messages the loop writes itself) or is the response of a successful completion
  of the provider, handed on as it came.
\<close>

lemma loop_terminates:
  assumes "0 \<le> depth"
  shows "\<exists>x a' w'.
           handleToolCalls_within (nat maxDepth) a initialResp messages opts depth enableStreaming w =
             Some (Inr x, a', w') \<and>
           handleToolCallsWithDepthLimitStreaming a initialResp messages opts depth enableStreaming w =
             (Inr x, a', w') \<and>
           (resp_Content x \<noteq> [] \<or> (\<exists>req w0. fst (p_Complete (llmProvider a) req w0) = Inr x))"
proof -
  from loop_result[of a initialResp messages opts depth enableStreaming w] obtain x a' w' where
    h: "handleToolCallsWithDepthLimitStreaming a initialResp messages opts depth enableStreaming w = (Inr x, a', w')"
       "x = force_complete_response initialResp (countSearchAttempts messages) \<and> maxDepth \<le> depth \<or>
        (\<exists>ms' d err req w0. x = provider_failed ms' d \<and> fst (p_Complete (llmProvider a) req w0) = Inl err) \<or>
        (\<exists>req w0. fst (p_Complete (llmProvider a) req w0) = Inr x)"
    by blast
  from assms have "0 < nat maxDepth" "maxDepth - depth \<le> int (nat maxDepth)"
    by (simp_all add: maxDepth_def)
  from within_budget[OF this, of a initialResp messages opts enableStreaming w] h(1)
  have "handleToolCalls_within (nat maxDepth) a initialResp messages opts depth enableStreaming w =
             Some (Inr x, a', w')" by simp
  moreover from h(2) have "resp_Content x \<noteq> [] \<or> (\<exists>req w0. fst (p_Complete (llmProvider a) req w0) = Inr x)"
    using force_complete_response_nonempty provider_failed_nonempty by blast
  ultimately show ?thesis using h(1) by blast
qed

lemma loop_terminates_example:
  "\<exists>x a' w'.
     handleToolCalls_within (nat maxDepth) (stub_agent (stub_provider ''P'' True (Inr ok_response)))
       search_request [user_message] stub_opts 0 False [] = Some (Inr x, a', w') \<and>
     handleToolCallsWithDepthLimitStreaming (stub_agent (stub_provider ''P'' True (Inr ok_response)))
       search_request [user_message] stub_opts 0 False [] = (Inr x, a', w') \<and>
     x = ok_response \<and> resp_Content x = ''ok'' \<and> w' = [Executed ''kbase'', Completed ''P'']"
proof -
  let ?a = "stub_agent (stub_provider ''P'' True (Inr ok_response))"
  have z: "(0::int) \<le> 0" by simp
  have e: "fst (handleToolCallsWithDepthLimitStreaming ?a search_request [user_message] stub_opts 0 False [])
             = Inr ok_response"
          "snd (snd (handleToolCallsWithDepthLimitStreaming ?a search_request [user_message] stub_opts 0 False []))
             = [Executed ''kbase'', Completed ''P'']"
    by (simp_all add: handleToolCallsWithDepthLimitStreaming.simps agent_defs loop_defs ok_response_def Let_def)
  from loop_terminates[OF z, of ?a search_request "[user_message]" stub_opts False "[]"]
  obtain x a' w' where
    h: "handleToolCalls_within (nat maxDepth) ?a search_request [user_message] stub_opts 0 False [] =
          Some (Inr x, a', w')"
       "handleToolCallsWithDepthLimitStreaming ?a search_request [user_message] stub_opts 0 False [] =
          (Inr x, a', w')"
    by blast
  from h(2) e have "x = ok_response" "w' = [Executed ''kbase'', Completed ''P'']" by simp_all
  moreover have "resp_Content ok_response = ''ok''" by (simp add: ok_response_def)
  ultimately show ?thesis using h by blast
qed

text \<open>
  C1, on a provider that always answers with empty content and one more tool call.
  Entered at depth 0 the loop returns within \<open>maxDepth\<close> invocations, and what it
  returns is the provider's answer as it came: the content is empty and the tool call
  is still pending.  \<open>SendMessage\<close> hands the same response to the user.  The branch
  that would replace an empty content, \<open>depth >= maxDepth\<close>, is never entered from a
  smaller depth, because the loop calls itself only while \<open>depth < maxDepth - 1\<close>.
\<close>

theorem loop_returns_empty_content:
  "handleToolCalls_within (nat maxDepth) (stub_agent (stub_provider ''P'' True (Inr search_request)))
       search_request [user_message] stub_opts 0 False [] =
     Some (handleToolCallsWithDepthLimitStreaming (stub_agent (stub_provider ''P'' True (Inr search_request)))
             search_request [user_message] stub_opts 0 False []) \<and>
   fst (handleToolCallsWithDepthLimitStreaming (stub_agent (stub_provider ''P'' True (Inr search_request)))
          search_request [user_message] stub_opts 0 False []) = Inr search_request \<and>
   resp_Content search_request = [] \<and>
   resp_ToolCalls search_request = [tool_call ''call_1'' ''kbase'' ''{}''] \<and>
   fst (SendMessage (stub_agent (stub_provider ''P'' True (Inr search_request)))
          ''how do I create a customer'' stub_opts []) = Inr search_request"
proof -
  let ?a = "stub_agent (stub_provider ''P'' True (Inr search_request))"
  have p: "\<forall>req w0. fst (p_Complete (llmProvider ?a) req w0) = Inr search_request"
    by (simp add: stub_agent_def stub_provider_def)
  have z: "(0::int) < maxDepth" by (simp add: maxDepth_def)
  have h: "fst (handleToolCallsWithDepthLimitStreaming ?a search_request ms stub_opts 0 False w) =
             Inr search_request" for ms w
    using always_requesting[OF p z] by simp
  have hx: "x = Inr search_request \<and> AddMessageToCurrentSession a' m w'' = (None, w'')"
    if "handleToolCallsWithDepthLimitStreaming ?a search_request ms stub_opts 0 False w = (x, a', w')"
    for ms w x a' w' m w''
  proof -
    from loop_result[of ?a search_request ms stub_opts 0 False w] that
    obtain tr where "a' = ?a\<lparr>toolRegistry := tr\<rparr>" by auto
    then have "AddMessageToCurrentSession a' m w'' = (None, w'')"
      by (simp add: stub_agent_def)
    with h[of ms w] that show ?thesis by simp
  qed
  have b: "0 < nat maxDepth" "maxDepth - 0 \<le> int (nat maxDepth)"
    by (simp_all add: maxDepth_def)
  have c1: "handleToolCalls_within (nat maxDepth) ?a search_request [user_message] stub_opts 0 False [] =
     Some (handleToolCallsWithDepthLimitStreaming ?a search_request [user_message] stub_opts 0 False [])"
    by (rule within_budget[OF b])
  have c3: "resp_Content search_request = []" by (simp add: search_request_def)
  have c4: "resp_ToolCalls search_request = [tool_call ''call_1'' ''kbase'' ''{}'']"
    by (simp add: search_request_def)
  have f: "currentSession ?a = Some ''s1''"
          "p_IsAvailable (llmProvider ?a) w = (True, w @ [Probed ''P''])"
          "p_Complete (llmProvider ?a) req w = (Inr search_request, w @ [Completed ''P''])"
          "AddMessageToCurrentSession ?a m w = (None, w)"
          "buildToolsForLLM ?a w = ([kbase_definition], w)"
          "GetContextForQuery ?a q l w = ([], w)"
          "buildSystemPromptCached ?a bb w = (''You are V3 Agent.'', w)"
          "SystemPrompt stub_opts = []" for w req m q l bb
    by (simp_all add: stub_agent_def stub_provider_def stub_opts_def)
  let ?ctx = "[\<lparr>Role = ''system'', Content = ''You are V3 Agent.'', ToolCalls = [], ToolCallID = []\<rparr>]"
  obtain x a' w' where
    e: "handleToolCallsWithDepthLimitStreaming ?a search_request ?ctx stub_opts 0 False
          [Probed ''P'', Completed ''P''] = (x, a', w')"
    by (cases "handleToolCallsWithDepthLimitStreaming ?a search_request ?ctx stub_opts 0 False
                 [Probed ''P'', Completed ''P'']") auto
  have x: "x = Inr search_request" using hx[OF e] by simp
  have m: "AddMessageToCurrentSession a' m w'' = (None, w'')" for m w'' using hx[OF e] by simp
  have c5: "fst (SendMessage ?a ''how do I create a customer'' stub_opts []) = Inr search_request"
    by (simp add: SendMessage_def sendMessageInternal_def Let_def f c4 e x m)
  show ?thesis
    by (rule conjI[OF c1 conjI[OF h conjI[OF c3 conjI[OF c4 c5]]]])
qed

subsection \<open>Entering at the depth limit\<close>

lemma TrimLeftSpace_length: "length (TrimLeftSpace s) \<le> length s"
  by (induction s rule: TrimLeftSpace.induct) auto

lemma TrimRightSpace_rev_length: "length (TrimRightSpace_rev s) \<le> length s"
  by (induction s rule: TrimRightSpace_rev.induct) auto

lemma TrimSpace_length: "length (TrimSpace s) \<le> length s"
  unfolding TrimSpace_def
  using TrimLeftSpace_length[of s] TrimRightSpace_rev_length[of "rev (TrimLeftSpace s)"] by simp

lemma colon_not_space:
  "\<not> asciiSpace CHR '':''" "\<not> space2 a CHR '':''" "\<not> space3 a b CHR '':''"
  by (simp_all add: asciiSpace_def space2_def space3_def)

lemma TrimLeftSpace_keeps_colon:
  "s \<noteq> [] \<Longrightarrow> last s = CHR '':'' \<Longrightarrow> TrimLeftSpace s \<noteq> [] \<and> last (TrimLeftSpace s) = CHR '':''"
proof (induction s rule: TrimLeftSpace.induct)
  case (1 a b c rest)
  then show ?case using colon_not_space by (cases "rest = []") auto
next
  case (2 a b)
  then show ?case using colon_not_space by auto
next
  case (3 a)
  then show ?case using colon_not_space by auto
next
  case 4
  then show ?case by simp
qed

lemma TrimRightSpace_rev_colon:
  "s \<noteq> [] \<Longrightarrow> hd s = CHR '':'' \<Longrightarrow> TrimRightSpace_rev s = s"
  using colon_not_space by (induction s rule: TrimRightSpace_rev.induct) auto

lemma HasSuffix_colon: "HasSuffix s '':'' \<longleftrightarrow> s \<noteq> [] \<and> last s = CHR '':''"
proof (cases s rule: rev_cases)
  case Nil
  then show ?thesis by (simp add: HasSuffix_def)
next
  case (snoc ys y)
  then show ?thesis by (auto simp: HasSuffix_def)
qed

lemma TrimSpace_keeps_colon: "HasSuffix s '':'' \<Longrightarrow> HasSuffix (TrimSpace s) '':''"
proof -
  assume "HasSuffix s '':''"
  then have s: "s \<noteq> []" "last s = CHR '':''" by (simp_all add: HasSuffix_colon)
  from TrimLeftSpace_keeps_colon[OF s] have t: "TrimLeftSpace s \<noteq> []" "last (TrimLeftSpace s) = CHR '':''"
    by simp_all
  then have "rev (TrimLeftSpace s) \<noteq> []" "hd (rev (TrimLeftSpace s)) = CHR '':''"
    by (simp_all add: hd_rev)
  from TrimRightSpace_rev_colon[OF this] have "TrimSpace s = TrimLeftSpace s"
    by (simp add: TrimSpace_def)
  with t show ?thesis by (simp add: HasSuffix_colon)
qed

lemma HasPrefix_append: "HasPrefix (ys @ zs) ys"
  by (simp add: HasPrefix_def)

lemma Contains_HasPrefix: "HasPrefix s sub \<Longrightarrow> Contains s sub"
  by (cases s) (auto simp: HasPrefix_def)

lemma Contains_append: "Contains (xs @ ys @ zs) ys"
proof (induction xs)
  case Nil
  show ?case using Contains_HasPrefix[OF HasPrefix_append] by simp
next
  case (Cons x xs)
  then show ?case by simp
qed

lemma HasSuffix_append3: "HasSuffix (xs @ ys @ zs @ s) s"
  by (simp add: HasSuffix_def)

text \<open>
  C2, as amended.  Entered with \<open>depth >= maxDepth\<close>, the loop returns at once: the
  agent and the world are as they were, so no tool ran and the provider was not
  called.  The content is replaced by the exhaustive-search message exactly when the
  content is empty, or the content with its leading and trailing white space removed
  ends with a colon or is shorter than 100 bytes; otherwise the response is returned
  as it is.  In particular content that is itself empty, ends with a colon or is
  shorter than 100 bytes is replaced.  The message states the number of search
  attempts, in its first sentence and as its last words.
\<close>

theorem depth_exhausted:
  assumes "maxDepth \<le> depth"
  shows "handleToolCallsWithDepthLimitStreaming a initialResp messages opts depth enableStreaming w =
           (Inr (if resp_Content initialResp = [] \<or>
                    HasSuffix (TrimSpace (resp_Content initialResp)) '':'' \<or>
                    length (TrimSpace (resp_Content initialResp)) < 100
                 then initialResp\<lparr>resp_Content :=
                        exhaustive_search_message (int (length (search_calls messages)))\<rparr>
                 else initialResp), a, w) \<and>
         (resp_Content initialResp = [] \<or> HasSuffix (resp_Content initialResp) '':'' \<or>
            length (resp_Content initialResp) < 100 \<longrightarrow>
            fst (handleToolCallsWithDepthLimitStreaming a initialResp messages opts depth enableStreaming w) =
              Inr (initialResp\<lparr>resp_Content :=
                     exhaustive_search_message (int (length (search_calls messages)))\<rparr>)) \<and>
         Contains (exhaustive_search_message n) (''('' @ fmt_d n @ '' attempts)'') \<and>
         HasSuffix (exhaustive_search_message n) (''Search attempts made: '' @ fmt_d n)"
proof (intro conjI impI)
  show e: "handleToolCallsWithDepthLimitStreaming a initialResp messages opts depth enableStreaming w =
           (Inr (if resp_Content initialResp = [] \<or>
                    HasSuffix (TrimSpace (resp_Content initialResp)) '':'' \<or>
                    length (TrimSpace (resp_Content initialResp)) < 100
                 then initialResp\<lparr>resp_Content :=
                        exhaustive_search_message (int (length (search_calls messages)))\<rparr>
                 else initialResp), a, w)"
    using assms
    by (simp add: handleToolCallsWithDepthLimitStreaming.simps[of a initialResp messages opts depth enableStreaming w]
          force_complete_response_def Let_def countSearchAttempts_eq)
  assume c: "resp_Content initialResp = [] \<or> HasSuffix (resp_Content initialResp) '':'' \<or>
            length (resp_Content initialResp) < 100"
  have "resp_Content initialResp = [] \<or>
                    HasSuffix (TrimSpace (resp_Content initialResp)) '':'' \<or>
                    length (TrimSpace (resp_Content initialResp)) < 100"
    using c TrimSpace_keeps_colon[of "resp_Content initialResp"] TrimSpace_length[of "resp_Content initialResp"]
    by auto
  with e show "fst (handleToolCallsWithDepthLimitStreaming a initialResp messages opts depth enableStreaming w) =
              Inr (initialResp\<lparr>resp_Content :=
                     exhaustive_search_message (int (length (search_calls messages)))\<rparr>)"
    by simp
next
  show "Contains (exhaustive_search_message n) (''('' @ fmt_d n @ '' attempts)'')"
    unfolding exhaustive_search_message_def by (rule Contains_append)
next
  show "HasSuffix (exhaustive_search_message n) (''Search attempts made: '' @ fmt_d n)"
    unfolding exhaustive_search_message_def by (rule HasSuffix_append3)
qed

lemma fmt_d_values: "fmt_d 0 = ''0''" "fmt_d 1 = ''1''" "fmt_d 8 = ''8''"
  by code_simp+

lemma trim_colon_blank:
  "TrimSpace (resp_Content colon_blank_response) =
     ''I searched the documentation and found several candidate endpoints that may match your request, listed below:''"
  by (simp add: colon_blank_response_def TrimSpace_def asciiSpace_def space2_def space3_def)

lemma TrimLeftSpace_blanks: "TrimLeftSpace (replicate k (CHR '' '')) = []"
proof (induction k rule: less_induct)
  case (less k)
  show ?case
  proof (cases k)
    case 0
    then show ?thesis by simp
  next
    case (Suc k1)
    show ?thesis
    proof (cases k1)
      case 0
      with Suc show ?thesis by (simp add: asciiSpace_def)
    next
      case (Suc k2)
      note k1 = this
      show ?thesis
      proof (cases k2)
        case 0
        with k1 \<open>k = Suc k1\<close> show ?thesis by (simp add: asciiSpace_def)
      next
        case (Suc k3)
        with k1 \<open>k = Suc k1\<close> less.IH[of k1] show ?thesis by (simp add: asciiSpace_def)
      qed
    qed
  qed
qed

lemma trim_blank: "TrimSpace (resp_Content blank_response) = []"
  by (simp add: blank_response_def TrimSpace_def TrimLeftSpace_blanks)

text \<open>
  C2 as stated fails in its last part: content of 100 bytes or more that does not end
  with a colon is still replaced when only white space follows a colon, or when it is
  white space throughout.
\<close>

theorem depth_exhausted_counterexample:
  "resp_Content colon_blank_response \<noteq> [] \<and>
   \<not> HasSuffix (resp_Content colon_blank_response) '':'' \<and>
   \<not> length (resp_Content colon_blank_response) < 100 \<and>
   fst (handleToolCallsWithDepthLimitStreaming (stub_agent (stub_provider ''P'' True (Inr ok_response)))
          colon_blank_response [user_message] stub_opts 20 False []) =
     Inr (colon_blank_response\<lparr>resp_Content := exhaustive_search_message 0\<rparr>) \<and>
   resp_Content blank_response \<noteq> [] \<and>
   \<not> HasSuffix (resp_Content blank_response) '':'' \<and>
   \<not> length (resp_Content blank_response) < 100 \<and>
   fst (handleToolCallsWithDepthLimitStreaming (stub_agent (stub_provider ''P'' True (Inr ok_response)))
          blank_response [user_message] stub_opts 20 False []) =
     Inr (blank_response\<lparr>resp_Content := exhaustive_search_message 0\<rparr>) \<and>
   exhaustive_search_message 0 \<noteq> resp_Content colon_blank_response \<and>
   exhaustive_search_message 0 \<noteq> resp_Content blank_response"
proof -
  have c0: "countSearchAttempts [user_message] = 0"
    by (simp add: countSearchAttempts_def user_message_def)
  have a: "resp_Content colon_blank_response \<noteq> []" "\<not> HasSuffix (resp_Content colon_blank_response) '':''"
    "\<not> length (resp_Content colon_blank_response) < 100"
    by (simp_all add: colon_blank_response_def HasSuffix_def)
  have b: "resp_Content blank_response \<noteq> []" "\<not> HasSuffix (resp_Content blank_response) '':''"
    "\<not> length (resp_Content blank_response) < 100"
    by (simp_all add: blank_response_def HasSuffix_def)
  have h1: "fst (handleToolCallsWithDepthLimitStreaming (stub_agent (stub_provider ''P'' True (Inr ok_response)))
          colon_blank_response [user_message] stub_opts 20 False []) =
     Inr (colon_blank_response\<lparr>resp_Content := exhaustive_search_message 0\<rparr>)"
    by (simp add: handleToolCallsWithDepthLimitStreaming.simps maxDepth_def force_complete_response_def
          Let_def c0 trim_colon_blank HasSuffix_def)
  have h2: "fst (handleToolCallsWithDepthLimitStreaming (stub_agent (stub_provider ''P'' True (Inr ok_response)))
          blank_response [user_message] stub_opts 20 False []) =
     Inr (blank_response\<lparr>resp_Content := exhaustive_search_message 0\<rparr>)"
    by (simp add: handleToolCallsWithDepthLimitStreaming.simps maxDepth_def force_complete_response_def
          Let_def c0 trim_blank)
  have d: "exhaustive_search_message 0 \<noteq> resp_Content colon_blank_response"
    "exhaustive_search_message 0 \<noteq> resp_Content blank_response"
    by (simp_all add: exhaustive_search_message_def colon_blank_response_def blank_response_def
          eval_nat_numeral)
  from a b h1 h2 d show ?thesis by blast
qed

theorem depth_exhausted_witness:
  "maxDepth \<le> 20 \<and>
   handleToolCallsWithDepthLimitStreaming (stub_agent (stub_provider ''P'' True (Inr ok_response)))
      search_request [user_message] stub_opts 20 False [] =
     (Inr (search_request\<lparr>resp_Content := exhaustive_search_message 0\<rparr>),
      stub_agent (stub_provider ''P'' True (Inr ok_response)), []) \<and>
   HasSuffix (exhaustive_search_message 0) ''Search attempts made: 0''"
proof -
  have m: "maxDepth \<le> 20" by (simp add: maxDepth_def)
  have z: "search_calls [user_message] = []" by (simp add: search_calls_def user_message_def)
  have f: "fmt_d 0 = ''0''" by (rule fmt_d_values)
  from depth_exhausted[OF m, of "stub_agent (stub_provider ''P'' True (Inr ok_response))" search_request
        "[user_message]" stub_opts False "[]" 0]
  show ?thesis using m z f by (simp add: search_request_def)
qed

section \<open>The confirmation gate\<close>

lemma ExecuteTool_gate:
  assumes "tools tr (ex_ToolName execution) = Some tool"
      and "t_RequiresConfirmation tool" "\<not> ex_Confirmed execution"
  shows "ExecuteTool rt tr execution w =
           (Inr (if fst (t_IsAvailable tool w)
                 then confirmation_required_result rt tool (ex_ToolName execution) (snd (t_IsAvailable tool w))
                 else unavailable_result rt (ex_ToolName execution) (snd (t_IsAvailable tool w))),
            tr, snd (t_IsAvailable tool w))"
  using assms
  by (auto simp: ExecuteTool_def confirmation_required_result_def unavailable_result_def
           split: prod.splits bool.splits)

text \<open>
  C9, as amended.  For a registered tool that requires confirmation, \<open>ExecuteTool\<close>
  with \<open>Confirmed = false\<close> returns, with a \<open>nil\<close> error, a result with
  \<open>success = false\<close>; the history is unchanged and the outcome is the same whatever
  the tool's \<open>Execute\<close> is, so \<open>Execute\<close> is not called.  When the tool is
  available the result is the confirmation-required one, with the metadata flag
  \<open>requires_confirmation = true\<close>; when it is not, the availability check comes first
  and the result is the unavailable one, without metadata.
\<close>

theorem confirmation_gate:
  assumes "tools tr (ex_ToolName execution) = Some tool"
      and "t_RequiresConfirmation tool" "\<not> ex_Confirmed execution"
  shows "\<exists>result w1.
           ExecuteTool rt tr execution w = (Inr result, tr, w1) \<and>
           w1 = snd (t_IsAvailable tool w) \<and>
           \<not> res_Success result \<and>
           (\<forall>g. ExecuteTool rt (with_Execute tr (ex_ToolName execution) g) execution w =
                  (Inr result, with_Execute tr (ex_ToolName execution) g, w1)) \<and>
           (fst (t_IsAvailable tool w) \<longrightarrow>
              result = confirmation_required_result rt tool (ex_ToolName execution) w1 \<and>
              map_of (res_Metadata result) ''requires_confirmation'' = Some (IBool True)) \<and>
           (\<not> fst (t_IsAvailable tool w) \<longrightarrow>
              result = unavailable_result rt (ex_ToolName execution) w1 \<and>
              map_of (res_Metadata result) ''requires_confirmation'' = None)"
proof -
  let ?name = "ex_ToolName execution"
  let ?w1 = "snd (t_IsAvailable tool w)"
  let ?result = "if fst (t_IsAvailable tool w)
                 then confirmation_required_result rt tool ?name ?w1
                 else unavailable_result rt ?name ?w1"
  have e: "ExecuteTool rt tr execution w = (Inr ?result, tr, ?w1)"
    by (rule ExecuteTool_gate[OF assms])
  have g: "ExecuteTool rt (with_Execute tr ?name g) execution w =
             (Inr ?result, with_Execute tr ?name g, ?w1)" for g
  proof -
    have t: "tools (with_Execute tr ?name g) ?name = Some (tool\<lparr>t_Execute := g\<rparr>)"
      using assms(1) by (simp add: with_Execute_def)
    from ExecuteTool_gate[OF t, of rt w] assms(2,3) show ?thesis
      by (simp add: confirmation_required_result_def)
  qed
  have s: "\<not> res_Success ?result"
    by (simp add: confirmation_required_result_def unavailable_result_def)
  have m1: "fst (t_IsAvailable tool w) \<longrightarrow>
              ?result = confirmation_required_result rt tool ?name ?w1 \<and>
              map_of (res_Metadata ?result) ''requires_confirmation'' = Some (IBool True)"
    by (simp add: confirmation_required_result_def)
  have m2: "\<not> fst (t_IsAvailable tool w) \<longrightarrow>
              ?result = unavailable_result rt ?name ?w1 \<and>
              map_of (res_Metadata ?result) ''requires_confirmation'' = None"
    by (simp add: unavailable_result_def)
  from e g s m1 m2 show ?thesis by blast
qed

theorem confirmation_gate_witness:
  "ExecuteTool stub_runtime stub_registry (unconfirmed ''file_write'') [] =
     (Inr (confirmation_required_result stub_runtime (stub_tool ''file_write'' True True) ''file_write'' []),
      stub_registry, []) \<and>
   map_of (res_Metadata (confirmation_required_result stub_runtime (stub_tool ''file_write'' True True)
                           ''file_write'' [])) ''requires_confirmation'' = Some (IBool True) \<and>
   snd (snd (ExecuteTool stub_runtime
               (with_Execute stub_registry ''file_write'' (\<lambda>ps w. (Inr (stub_result ''other''), w @ [Executed ''other''])))
               (unconfirmed ''file_write'') [])) = []"
proof -
  let ?t = "stub_tool ''file_write'' True True"
  have h1: "tools stub_registry (ex_ToolName (unconfirmed ''file_write'')) = Some ?t"
    by (simp add: stub_registry_def unconfirmed_def)
  have h2: "t_RequiresConfirmation ?t" by (simp add: stub_tool_def)
  have h3: "\<not> ex_Confirmed (unconfirmed ''file_write'')" by (simp add: unconfirmed_def)
  have av: "t_IsAvailable ?t [] = (True, [])" by (simp add: stub_tool_def)
  have n: "ex_ToolName (unconfirmed ''file_write'') = ''file_write''" by (simp add: unconfirmed_def)
  from confirmation_gate[OF h1 h2 h3, of stub_runtime "[]"] av n
  show ?thesis by auto
qed

text \<open>
  C9 as stated fails for a tool that requires confirmation and is not available: the
  result has no \<open>requires_confirmation\<close> flag.
\<close>

theorem confirmation_gate_counterexample:
  "tools stub_registry ''offline'' = Some (stub_tool ''offline'' False True) \<and>
   t_RequiresConfirmation (stub_tool ''offline'' False True) \<and>
   \<not> ex_Confirmed (unconfirmed ''offline'') \<and>
   ExecuteTool stub_runtime stub_registry (unconfirmed ''offline'') [] =
     (Inr (unavailable_result stub_runtime ''offline'' []), stub_registry, []) \<and>
   res_Metadata (unavailable_result stub_runtime ''offline'' []) = [] \<and>
   map_of (res_Metadata (unavailable_result stub_runtime ''offline'' [])) ''requires_confirmation'' = None"
  by (simp add: ExecuteTool_def stub_registry_def stub_tool_def unconfirmed_def unavailable_result_def)


subsection \<open>The gate and the loop\<close>


lemma no_confirmation_registry:
  "no_confirmation (a\<lparr>toolRegistry := recordExecution (toolRegistry a) ex res\<rparr>) =
   (no_confirmation a)\<lparr>toolRegistry := recordExecution (toolRegistry (no_confirmation a)) ex res\<rparr>"
  by (simp add: no_confirmation_def recordExecution_def Let_def)

lemma no_confirmation_same: "no_confirmation (a\<lparr>toolRegistry := toolRegistry a\<rparr>) = no_confirmation a"
  by simp




















section \<open>The last round and the retry after a provider failure\<close>

lemma build_finalReq_final_depth:
  assumes "maxDepth - 1 \<le> depth" "ms \<noteq> []" "Role (last ms) = ''tool''"
  shows "fst (build_finalReq a opts depth es ms w) =
           \<lparr>req_Messages = ms, req_Model = [], req_MaxTokens = MaxTokens opts,
            req_Temperature = Temperature opts, req_Stream = False,
            req_Tools = [], req_ToolChoice = []\<rparr> \<and>
         fst (snd (build_finalReq a opts depth es ms w)) = ms"
  using assms unfolding build_finalReq_def Let_def by simp

text \<open>
  At depth \<open>maxDepth - 1\<close> or more, after at least one tool call, the request is sent
  without tools and the conversation is what the round appended, the assistant message
  and one tool message for each call, and nothing else: the last message is a tool
  message, so the instruction kept for a last assistant message is not added.
\<close>

lemma final_depth_round:
  assumes "maxDepth - 1 \<le> depth" "resp_ToolCalls r \<noteq> []"
      and "prepare_round a r ms opts depth es w = (req, ms', a', w')"
  shows "req_Tools req = [] \<and> req_ToolChoice req = [] \<and> req_Messages req = ms' \<and>
         (\<exists>tool_msgs. ms' = ms @ \<lparr>Role = ''assistant'',
                                   Content = (if resp_Content r = []
                                              then ''I'' @ apos @ ''ll use some tools to help answer your question.''
                                              else resp_Content r),
                                   ToolCalls = resp_ToolCalls r, ToolCallID = []\<rparr> # tool_msgs \<and>
            length tool_msgs = length (resp_ToolCalls r) \<and>
            (\<forall>m \<in> set tool_msgs. Role m = ''tool''))"
proof -
  let ?am = "\<lparr>Role = ''assistant'',
              Content = (if resp_Content r = []
                         then ''I'' @ apos @ ''ll use some tools to help answer your question.''
                         else resp_Content r),
              ToolCalls = resp_ToolCalls r, ToolCallID = []\<rparr>"
  obtain ms2 a1 w1 where e: "execute_tool_calls a opts es (length (resp_ToolCalls r)) 0 (resp_ToolCalls r)
       (ms @ [?am]) w = (ms2, a1, w1)"
    by (metis prod_cases3)
  from execute_tool_calls_extends[OF e] obtain extra where
    x: "ms2 = (ms @ [?am]) @ extra" "length extra = length (resp_ToolCalls r)"
       "\<forall>m \<in> set extra. Role m = ''tool''" by blast
  from x(2) assms(2) have ne: "extra \<noteq> []" by auto
  with x have l: "ms2 \<noteq> []" "Role (last ms2) = ''tool''" by auto
  let ?w2 = "if es then emit_status a1 opts ''Processing results...'' w1 else w1"
  from assms(3) e have p: "req = fst (build_finalReq a1 opts depth es ms2 ?w2)"
    "ms' = fst (snd (build_finalReq a1 opts depth es ms2 ?w2))"
    unfolding prepare_round_def Let_def by (auto split: prod.splits)
  from build_finalReq_final_depth[OF assms(1) l, of a1 opts es ?w2] p
  have "req_Tools req = []" "req_ToolChoice req = []" "req_Messages req = ms'" "ms' = ms2"
    by simp_all
  with x show ?thesis by auto
qed

text \<open>At depth \<open>maxDepth - 1\<close> the answer of the provider ends the loop, tool calls or not.\<close>

lemma final_depth_returns:
  assumes "maxDepth - 1 \<le> depth" "depth < maxDepth"
  shows "handleToolCallsWithDepthLimitStreaming a r ms opts depth es w =
           (case tool_round a r ms opts depth es w of
              (Inl err, ms', a', w') \<Rightarrow> (Inr (provider_failed ms' depth), a', w')
            | (Inr finalResp, ms', a', w') \<Rightarrow> (Inr finalResp, a', w'))"
  using assms
  by (simp add: handleToolCallsWithDepthLimitStreaming.simps[of a r ms opts depth es w]
           split: prod.splits sum.splits)

text \<open>
  C4, at depth 19 with one search requested: the request has no tools and an empty
  tool choice, and its messages are the user's message, the assistant message with the
  placeholder content and the tool's result.  No message carries the instruction to
  give a final answer.
\<close>

theorem final_depth_request:
  "fst (prepare_round (stub_agent (stub_provider ''P'' True (Inr search_request)))
          search_request [user_message] stub_opts 19 False []) =
     \<lparr>req_Messages =
        [user_message,
         \<lparr>Role = ''assistant'',
          Content = ''I'' @ apos @ ''ll use some tools to help answer your question.'',
          ToolCalls = [tool_call ''call_1'' ''kbase'' ''{}''], ToolCallID = []\<rparr>,
         \<lparr>Role = ''tool'', Content = ''result of kbase'', ToolCalls = [], ToolCallID = ''call_1''\<rparr>],
      req_Model = [], req_MaxTokens = 2500, req_Temperature = 0.7, req_Stream = False,
      req_Tools = [], req_ToolChoice = []\<rparr> \<and>
   filter (\<lambda>m. Contains (Content m) ''Provide a complete final answer'')
     (req_Messages (fst (prepare_round (stub_agent (stub_provider ''P'' True (Inr search_request)))
                           search_request [user_message] stub_opts 19 False []))) = [] \<and>
   Contains final_answer_instruction ''Provide a complete final answer''"
proof -
  have e: "fst (prepare_round (stub_agent (stub_provider ''P'' True (Inr search_request)))
          search_request [user_message] stub_opts 19 False []) =
     \<lparr>req_Messages =
        [user_message,
         \<lparr>Role = ''assistant'',
          Content = ''I'' @ apos @ ''ll use some tools to help answer your question.'',
          ToolCalls = [tool_call ''call_1'' ''kbase'' ''{}''], ToolCallID = []\<rparr>,
         \<lparr>Role = ''tool'', Content = ''result of kbase'', ToolCalls = [], ToolCallID = ''call_1''\<rparr>],
      req_Model = [], req_MaxTokens = 2500, req_Temperature = 0.7, req_Stream = False,
      req_Tools = [], req_ToolChoice = []\<rparr>"
    by (simp add: agent_defs loop_defs Let_def)
  have c: "Contains final_answer_instruction ''Provide a complete final answer''"
    by code_simp
  have f: "filter (\<lambda>m. Contains (Content m) ''Provide a complete final answer'')
        [user_message,
         \<lparr>Role = ''assistant'',
          Content = ''I'' @ apos @ ''ll use some tools to help answer your question.'',
          ToolCalls = [tool_call ''call_1'' ''kbase'' ''{}''], ToolCallID = []\<rparr>,
         \<lparr>Role = ''tool'', Content = ''result of kbase'', ToolCalls = [], ToolCallID = ''call_1''\<rparr>] = []"
    by code_simp
  from e c f show ?thesis by simp
qed

text \<open>
  When the provider fails in a round below depth \<open>maxDepth - 2\<close> with fewer than
  \<open>minSearches\<close> searches counted, the loop returns, with a \<open>nil\<close> error, the retry
  response: one tool call, to \<open>kbase\<close>, with the fixed argument.
\<close>

lemma provider_failure_retry:
  assumes "depth < maxDepth - 2"
      and "tool_round a r ms opts depth es w = (Inl err, ms', a', w')"
      and "countSearchAttempts ms' < minSearches"
  shows "handleToolCallsWithDepthLimitStreaming a r ms opts depth es w =
           (Inr (retry_response (countSearchAttempts ms') depth), a', w') \<and>
         resp_ToolCalls (retry_response (countSearchAttempts ms') depth) =
           [\<lparr>tc_ID = ''retry_search_'' @ fmt_d depth, tc_Type = ''function'',
             tc_Function = \<lparr>fc_Name = ''kbase'',
                             fc_Arguments = ''{'' @ dquote @ ''query'' @ dquote @ '': '' @ dquote @
                                            ''alternative search terms'' @ dquote @ ''}''\<rparr>\<rparr>]"
  using assms
  by (simp add: handleToolCallsWithDepthLimitStreaming.simps[of a r ms opts depth es w]
        provider_failed_def retry_response_def maxDepth_def)

text \<open>
  C5, on a provider that asks for one search and then fails.  \<open>SendMessage\<close> returns
  the retry response as the answer: its content is the progress line, its tool call
  is still pending, and the world shows the two completions and the one search that
  ran before the failure.  The retry call is not executed.
\<close>

theorem retry_call_not_executed:
  "fst (sendMessageInternal (stub_agent (scripted_provider ''P'' [Inr search_request] (Inl server_err)))
          ''how do I create a customer'' False stub_opts []) = Inr (retry_response 1 0) \<and>
   snd (snd (sendMessageInternal (stub_agent (scripted_provider ''P'' [Inr search_request] (Inl server_err)))
          ''how do I create a customer'' False stub_opts [])) =
     [Completed ''P'', Executed ''kbase'', Completed ''P''] \<and>
   resp_Content (retry_response 1 0) = ''Continuing search... (1/8 attempts made)'' \<and>
   map (\<lambda>tc. (tc_ID tc, fc_Name (tc_Function tc))) (resp_ToolCalls (retry_response 1 0)) =
     [(''retry_search_0'', ''kbase'')]"
proof -
  let ?a = "stub_agent (scripted_provider ''P'' [Inr search_request] (Inl server_err))"
  have f: "fmt_d 0 = ''0''" "fmt_d 1 = ''1''" "fmt_d 8 = ''8''" by (rule fmt_d_values)+
  have s1: "fst (sendMessageInternal ?a ''how do I create a customer'' False stub_opts []) = Inr (retry_response 1 0)"
    by (simp add: sendMessageInternal_def handleToolCallsWithDepthLimitStreaming.simps agent_defs loop_defs
          Let_def server_err_def)
  have s2: "snd (snd (sendMessageInternal ?a ''how do I create a customer'' False stub_opts [])) =
     [Completed ''P'', Executed ''kbase'', Completed ''P'']"
    by (simp add: sendMessageInternal_def handleToolCallsWithDepthLimitStreaming.simps agent_defs loop_defs
          Let_def server_err_def)
  have s3: "resp_Content (retry_response 1 0) = ''Continuing search... (1/8 attempts made)''"
    by (simp add: retry_response_def f minSearches_def)
  have s4: "map (\<lambda>tc. (tc_ID tc, fc_Name (tc_Function tc))) (resp_ToolCalls (retry_response 1 0)) =
     [(''retry_search_0'', ''kbase'')]"
    by (simp add: retry_response_def f)
  from s1 s2 s3 s4 show ?thesis by blast
qed

section \<open>What \<open>SendMessage\<close> returns\<close>









end
